theory Spec2Isabelle
  imports Complex_Main "HOL-Library.AList"
begin

section \<open>Python values used by sports\_chatbot.py\<close>

subsection \<open>Text\<close>

text \<open>
  A Python \<^verbatim>\<open>str\<close> is a sequence of Unicode code points; it is modelled as the list of
  its code points, so that \<^verbatim>\<open>str.split()\<close> sees the same characters as Python does.
  A literal of the program is written \<open>lit ''...''\<close>.
\<close>

type_synonym ustr = "nat list"

definition lit :: "string \<Rightarrow> ustr" where
  "lit s = map of_char s"

text \<open>
  \<^verbatim>\<open>str.isspace\<close> on one code point: the code points that CPython's
  \<^verbatim>\<open>Py_UNICODE_ISSPACE\<close> accepts (U+0009..U+000D, U+001C..U+0020, U+0085, U+00A0,
  U+1680, U+2000..U+200A, U+2028, U+2029, U+202F, U+205F, U+3000).
\<close>

definition isspace :: "nat \<Rightarrow> bool" where
  "isspace c =
     ((9 \<le> c \<and> c \<le> 13) \<or> (28 \<le> c \<and> c \<le> 32) \<or> c = 133 \<or> c = 160 \<or> c = 5760 \<or>
      (8192 \<le> c \<and> c \<le> 8202) \<or> c = 8232 \<or> c = 8233 \<or> c = 8239 \<or> c = 8287 \<or>
      c = 12288)"

text \<open>
  \<^verbatim>\<open>text.split()\<close> with no separator: runs of whitespace separate the words, and
  leading and trailing whitespace yields no empty word. \<open>split_from cs w\<close> scans the
  rest \<open>cs\<close> of the text with the word \<open>w\<close> collected so far.
\<close>

fun split_from :: "ustr \<Rightarrow> ustr \<Rightarrow> ustr list" where
  "split_from [] w = (if w = [] then [] else [w])"
| "split_from (c # cs) w =
     (if isspace c then (if w = [] then split_from cs [] else w # split_from cs [])
      else split_from cs (w @ [c]))"

definition str_split :: "ustr \<Rightarrow> ustr list" where
  "str_split text = split_from text []"

text \<open>\<^verbatim>\<open>str(n)\<close> for an integer: decimal digits, with a minus sign below zero.\<close>

function digits :: "int \<Rightarrow> ustr" where
  "digits n = (if n < 10 then [48 + nat n] else digits (n div 10) @ [48 + nat (n mod 10)])"
  by pat_completeness auto
termination
  by (relation "measure nat") auto

declare digits.simps [simp del]

definition str_int :: "int \<Rightarrow> ustr" where
  "str_int n = (if n < 0 then 45 # digits (- n) else digits n)"

subsection \<open>Floating point\<close>

text \<open>
  A Python \<^verbatim>\<open>float\<close> is an IEEE 754 double. A finite double is modelled by an integer
  mantissa and a binary exponent, with value \<open>mantissa * 2 ^ exponent\<close>; every result
  of an operation is rounded to 53 significant bits, ties to even, and is stored with a
  53-bit mantissa (zero as \<open>Double 0 0\<close>), so two results are equal as doubles exactly
  when they are equal here. The exponent is unbounded: overflow to infinity and
  subnormal numbers (beyond \<open>1.8e308\<close> and below \<open>2.3e-308\<close>) are left out.
\<close>

datatype double = Double (mantissa: int) (exponent: int)

function bit_length :: "int \<Rightarrow> nat" where
  "bit_length n = (if n \<le> 0 then 0 else Suc (bit_length (n div 2)))"
  by pat_completeness auto
termination
  by (relation "measure nat") auto

declare bit_length.simps [simp del]

text \<open>\<open>a / b\<close> rounded to the nearest integer, ties to even (\<open>0 \<le> a\<close>, \<open>0 < b\<close>).\<close>

definition div_half_even :: "int \<Rightarrow> int \<Rightarrow> int" where
  "div_half_even a b =
     (let q = a div b; r = a mod b
      in if 2 * r < b then q else if b < 2 * r then q + 1
         else if even q then q else q + 1)"

text \<open>The double nearest to \<open>a / b\<close>, for \<open>0 < a\<close> and \<open>0 < b\<close>.\<close>

definition round_pos :: "int \<Rightarrow> int \<Rightarrow> double" where
  "round_pos a b =
     (let e0 = int (bit_length a) - int (bit_length b);
          e = (if (if 0 \<le> e0 then b * 2 ^ nat e0 \<le> a else b \<le> a * 2 ^ nat (- e0))
               then e0 else e0 - 1);
          s = e - 52;
          m = (if 0 \<le> s then div_half_even a (b * 2 ^ nat s)
               else div_half_even (a * 2 ^ nat (- s)) b)
      in if m = 2 ^ 53 then Double (2 ^ 52) (s + 1) else Double m s)"

text \<open>The double nearest to \<open>a / b\<close>, for any integer \<open>a\<close> and \<open>0 < b\<close>.\<close>

definition round_ratio :: "int \<Rightarrow> int \<Rightarrow> double" where
  "round_ratio a b =
     (if a = 0 then Double 0 0
      else if 0 < a then round_pos a b
      else (let d = round_pos (- a) b in Double (- mantissa d) (exponent d)))"

text \<open>The double nearest to \<open>m * 2 ^ e\<close>.\<close>

definition round_scaled :: "int \<Rightarrow> int \<Rightarrow> double" where
  "round_scaled m e = (if 0 \<le> e then round_ratio (m * 2 ^ nat e) 1 else round_ratio m (2 ^ nat (- e)))"

text \<open>\<^verbatim>\<open>float(n)\<close>, the conversion Python applies to the integer operand of \<^verbatim>\<open>n * x\<close>.\<close>

definition float_of_int :: "int \<Rightarrow> double" where
  "float_of_int n = round_ratio n 1"

definition float_mul :: "double \<Rightarrow> double \<Rightarrow> double" where
  "float_mul x y = round_scaled (mantissa x * mantissa y) (exponent x + exponent y)"

definition float_add :: "double \<Rightarrow> double \<Rightarrow> double" where
  "float_add x y =
     (let e = min (exponent x) (exponent y)
      in round_scaled (mantissa x * 2 ^ nat (exponent x - e) + mantissa y * 2 ^ nat (exponent y - e)) e)"

definition float_sub :: "double \<Rightarrow> double \<Rightarrow> double" where
  "float_sub x y = float_add x (Double (- mantissa y) (exponent y))"

text \<open>\<^verbatim>\<open>n * x\<close> for a Python integer \<open>n\<close> and a float \<open>x\<close>.\<close>

definition int_times_float :: "int \<Rightarrow> double \<Rightarrow> double" where
  "int_times_float n x = float_mul (float_of_int n) x"

text \<open>
  The number a double stands for, and the form in which the operations return their
  results: zero, or a mantissa of exactly 53 bits.
\<close>

definition value_of :: "double \<Rightarrow> rat" where
  "value_of d = of_int (mantissa d) * 2 powi exponent d"

definition canonical :: "double \<Rightarrow> bool" where
  "canonical d = (d = Double 0 0 \<or> (2 ^ 52 \<le> \<bar>mantissa d\<bar> \<and> \<bar>mantissa d\<bar> < 2 ^ 53))"

section \<open>Constants and helpers of the program\<close>

definition AGENT_ID :: ustr where
  "AGENT_ID = lit ''A8BOBK3KW2''"

definition AGENT_ALIAS_ID :: ustr where
  "AGENT_ALIAS_ID = lit ''ULQOQRBUIW''"

text \<open>The literal \<^verbatim>\<open>0.00025\<close>: the double nearest to \<open>25 / 100000\<close>.\<close>

definition COST_PER_INPUT_TOKEN :: double where
  "COST_PER_INPUT_TOKEN = round_ratio 25 100000"

definition COST_PER_OUTPUT_TOKEN :: double where
  "COST_PER_OUTPUT_TOKEN = round_ratio 25 100000"

text \<open>\<^verbatim>\<open>count_tokens\<close>: \<^verbatim>\<open>len(text.split())\<close>.\<close>

definition count_tokens :: "ustr \<Rightarrow> int" where
  "count_tokens text = int (length (str_split text))"

section \<open>Data\<close>

text \<open>
  The agent's answer, as the program reads it. A retrieved reference is read only through
  \<^verbatim>\<open>ref['location']['s3Location']['uri']\<close> and a citation only through
  \<^verbatim>\<open>citation["retrievedReferences"]\<close>; the records keep these fields. Trace payloads are
  passed through unread, so their type \<open>'t\<close> is left open. Dictionaries that the program
  fills key by key are association lists in insertion order.
\<close>

record retrieved_reference =
  uri :: ustr

record citation =
  retrievedReferences :: "retrieved_reference list"

text \<open>
  One event of the completion stream: \<open>chunk\<close> and \<open>ev_trace\<close> are \<open>None\<close> when the
  key is absent from the event. \<open>bytes\<close> is the chunk's text after
  \<^verbatim>\<open>.decode()\<close>; \<open>attribution\<close> is \<^verbatim>\<open>chunk["attribution"]["citations"]\<close> when the chunk
  has an attribution; \<open>ev_trace\<close> is the dictionary \<^verbatim>\<open>event["trace"]["trace"]\<close>.
\<close>

record chunk =
  bytes :: ustr
  attribution :: "citation list option"

record 't event =
  chunk :: "chunk option"
  ev_trace :: "(ustr \<times> 't) list option"

record 't response =
  output_text :: ustr
  r_citations :: "citation list"
  r_trace :: "(ustr \<times> 't list) list"
  execution_time :: double

text \<open>
  The \<^verbatim>\<open>"metrics"\<close> dictionary of a stored message; a user message has no
  \<^verbatim>\<open>"execution_time"\<close> and no \<^verbatim>\<open>"trace"\<close> key.
\<close>

record 't metrics =
  tokens :: int
  cost :: double
  timestamp :: ustr
  m_execution_time :: "double option"
  m_trace :: "(ustr \<times> 't list) list option"

record 't message =
  role :: ustr
  content :: ustr
  metrics :: "'t metrics"

text \<open>
  \<^verbatim>\<open>st.session_state\<close> once \<^verbatim>\<open>init_state\<close> has filled it. The whole store is a
  \<open>'t session option\<close>: \<open>None\<close> is the store without the key \<^verbatim>\<open>'initialized'\<close> (a new
  browser session, or the store after \<^verbatim>\<open>clear()\<close>), since the program sets and clears
  its keys only all together.
\<close>

record 't session =
  session_id :: ustr
  messages :: "'t message list"
  citations :: "citation list"
  trace :: "(ustr \<times> 't list) list"
  total_cost :: double
  total_input_tokens :: int
  total_output_tokens :: int
  session_start_time :: double
  total_prompt_time :: double

text \<open>The arguments of \<^verbatim>\<open>client.invoke_agent\<close>.\<close>

record request =
  agentId :: ustr
  agentAliasId :: ustr
  enableTrace :: bool
  sessionId :: ustr
  inputText :: ustr

text \<open>
  What the program does to the outside, in program order: the call of the agent service,
  and the Streamlit calls \<^verbatim>\<open>st.error\<close>, \<^verbatim>\<open>markdown\<close> and \<^verbatim>\<open>write\<close>.
\<close>

datatype effect = Invoke request | Error ustr | Markdown ustr | Write ustr

text \<open>
  What the agent service does with one request: it raises \<^verbatim>\<open>ClientError\<close> (with the
  text of \<^verbatim>\<open>str(e)\<close>), at the call or while the stream is read, or it delivers the
  events of the completion stream.
\<close>

datatype 't outcome = ClientError ustr | Completion "'t event list"

text \<open>
  The readings one turn takes from outside the program: \<^verbatim>\<open>time.time()\<close> at the start of
  \<^verbatim>\<open>invoke_agent\<close> and after the stream, the service's outcome, and the two
  \<^verbatim>\<open>datetime.now().strftime("%H:%M:%S")\<close> strings of \<^verbatim>\<open>store_messages\<close>.
\<close>

record 't turn_env =
  start_time :: double
  outcome :: "'t outcome"
  end_time :: double
  user_timestamp :: ustr
  assistant_timestamp :: ustr

text \<open>
  The readings of one script run (one execution of \<^verbatim>\<open>main\<close>): the values of
  \<^verbatim>\<open>str(uuid.uuid4())\<close> and \<^verbatim>\<open>time.time()\<close> that \<^verbatim>\<open>init_state\<close> would use at the start
  and after a reset, whether the Reset Session button reports a click, what
  \<^verbatim>\<open>chat_input\<close> returns (\<open>None\<close> when nothing was submitted), and the readings of the turn.
\<close>

record 't run =
  fresh_id :: ustr
  now :: double
  reset_clicked :: bool
  reset_id :: ustr
  reset_now :: double
  chat_input :: "ustr option"
  turn :: "'t turn_env"

section \<open>The program\<close>

text \<open>
  \<^verbatim>\<open>init_state\<close>: fills the store when \<^verbatim>\<open>'initialized'\<close> is not in it, and leaves it
  alone otherwise. The result is the content of the store after the call.
\<close>

definition init_state :: "ustr \<Rightarrow> double \<Rightarrow> 't session option \<Rightarrow> 't session" where
  "init_state uuid4 time_now ss =
     (case ss of
        None \<Rightarrow>
          \<lparr>session_id = uuid4, messages = [], citations = [], trace = [],
           total_cost = Double 0 0, total_input_tokens = 0, total_output_tokens = 0,
           session_start_time = time_now, total_prompt_time = Double 0 0\<rparr>
      | Some st \<Rightarrow> st)"

text \<open>The loop of \<^verbatim>\<open>invoke_agent\<close> over the completion stream.\<close>

definition TRACE_TYPES :: "ustr list" where
  "TRACE_TYPES = [lit ''preProcessingTrace'', lit ''orchestrationTrace'', lit ''postProcessingTrace'']"

definition add_trace :: "(ustr \<times> 't) list \<Rightarrow> (ustr \<times> 't list) list \<Rightarrow> ustr \<Rightarrow> (ustr \<times> 't list) list" where
  "add_trace ev tr trace_type =
     (case map_of ev trace_type of
        None \<Rightarrow> tr
      | Some payload \<Rightarrow>
          (let tr1 = (case map_of tr trace_type of None \<Rightarrow> AList.update trace_type [] tr | Some _ \<Rightarrow> tr)
           in AList.map_entry trace_type (\<lambda>ps. ps @ [payload]) tr1))"

definition read_event ::
  "ustr \<times> citation list \<times> (ustr \<times> 't list) list \<Rightarrow> 't event \<Rightarrow>
   ustr \<times> citation list \<times> (ustr \<times> 't list) list" where
  "read_event acc ev =
     (case acc of (text, cits, tr) \<Rightarrow>
        (let text1 = (case chunk ev of None \<Rightarrow> text | Some ch \<Rightarrow> text @ bytes ch);
             cits1 = (case chunk ev of None \<Rightarrow> cits
                      | Some ch \<Rightarrow> (case attribution ch of None \<Rightarrow> cits | Some cs \<Rightarrow> cits @ cs));
             tr1 = (case ev_trace ev of None \<Rightarrow> tr | Some d \<Rightarrow> foldl (add_trace d) tr TRACE_TYPES)
         in (text1, cits1, tr1)))"

definition read_completion :: "'t event list \<Rightarrow> ustr \<times> citation list \<times> (ustr \<times> 't list) list" where
  "read_completion events = foldl read_event ([], [], []) events"

text \<open>
  \<^verbatim>\<open>invoke_agent\<close>: the response (\<open>None\<close> after a \<^verbatim>\<open>ClientError\<close>), the store, and the
  effects. The processing time is added to the store only when the stream was read to
  its end.
\<close>

definition invoke_agent ::
  "'t turn_env \<Rightarrow> ustr \<Rightarrow> 't session \<Rightarrow> 't response option \<times> 't session \<times> effect list" where
  "invoke_agent env prompt st =
     (let req = \<lparr>agentId = AGENT_ID, agentAliasId = AGENT_ALIAS_ID, enableTrace = True,
                 sessionId = session_id st, inputText = prompt\<rparr>
      in case outcome env of
           ClientError e \<Rightarrow> (None, st, [Invoke req, Error (lit ''Error invoking agent: '' @ e)])
         | Completion events \<Rightarrow>
             (case read_completion events of (text, cits, tr) \<Rightarrow>
                (let elapsed = float_sub (end_time env) (start_time env)
                 in (Some \<lparr>output_text = text, r_citations = cits, r_trace = tr,
                            execution_time = elapsed\<rparr>,
                     st\<lparr>total_prompt_time := float_add (total_prompt_time st) elapsed\<rparr>,
                     [Invoke req]))))"

text \<open>\<^verbatim>\<open>store_messages\<close>: the two messages are appended, user first.\<close>

definition store_messages ::
  "'t turn_env \<Rightarrow> ustr \<Rightarrow> ustr \<Rightarrow> int \<Rightarrow> int \<Rightarrow> double \<Rightarrow> double \<Rightarrow> 't response \<Rightarrow>
   't session \<Rightarrow> 't session" where
  "store_messages env prompt text input_tokens output_tokens input_cost output_cost resp st =
     st\<lparr>messages := messages st @
          [\<lparr>role = lit ''user'', content = prompt,
            metrics = \<lparr>tokens = input_tokens, cost = input_cost,
                       timestamp = user_timestamp env,
                       m_execution_time = None, m_trace = None\<rparr>\<rparr>,
           \<lparr>role = lit ''assistant'', content = text,
            metrics = \<lparr>tokens = output_tokens, cost = output_cost,
                       timestamp = assistant_timestamp env,
                       m_execution_time = Some (execution_time resp),
                       m_trace = Some (r_trace resp)\<rparr>\<rparr>],
        citations := r_citations resp,
        trace := r_trace resp\<rparr>"

text \<open>
  The two loops of \<^verbatim>\<open>process_agent_response\<close> that build \<^verbatim>\<open>citation_text\<close>:
  \<open>reference_lines\<close> is the inner loop over the references of one citation,
  \<open>citation_lines\<close> the outer loop, with \<open>idx\<close> counted by \<^verbatim>\<open>enumerate\<close>.
\<close>

fun reference_lines :: "int \<Rightarrow> retrieved_reference list \<Rightarrow> ustr \<Rightarrow> ustr" where
  "reference_lines idx [] citation_text = citation_text"
| "reference_lines idx (ref # refs) citation_text =
     reference_lines idx refs (citation_text @ lit ''\<newline>'' @ str_int idx @ lit ''. '' @ uri ref)"

fun citation_lines :: "int \<Rightarrow> citation list \<Rightarrow> ustr \<Rightarrow> ustr" where
  "citation_lines idx [] citation_text = citation_text"
| "citation_lines idx (c # cs) citation_text =
     citation_lines (idx + 1) cs (reference_lines idx (retrievedReferences c) citation_text)"

definition process_agent_response ::
  "'t turn_env \<Rightarrow> 't response \<Rightarrow> ustr \<Rightarrow> int \<Rightarrow> double \<Rightarrow> 't session \<Rightarrow> 't session \<times> effect list" where
  "process_agent_response env resp prompt input_tokens input_cost st =
     (let output_tokens = count_tokens (output_text resp);
          output_cost = int_times_float output_tokens COST_PER_OUTPUT_TOKEN;
          st1 = st\<lparr>total_output_tokens := total_output_tokens st + output_tokens,
                   total_cost := float_add (total_cost st) output_cost\<rparr>;
          text = (if r_citations resp \<noteq> []
                  then output_text resp @
                       citation_lines 1 (r_citations resp) (lit ''\<newline>\<newline>**Sources:**'')
                  else output_text resp)
      in (store_messages env prompt text input_tokens output_tokens input_cost output_cost resp st1,
          [Markdown text]))"

definition process_user_input :: "'t turn_env \<Rightarrow> ustr \<Rightarrow> 't session \<Rightarrow> 't session \<times> effect list" where
  "process_user_input env prompt st =
     (let input_tokens = count_tokens prompt;
          input_cost = int_times_float input_tokens COST_PER_INPUT_TOKEN;
          st1 = st\<lparr>total_input_tokens := total_input_tokens st + input_tokens,
                   total_cost := float_add (total_cost st) input_cost\<rparr>;
          shown = [Write prompt, Markdown (lit ''Thinking...'')]
      in case invoke_agent env prompt st1 of
           (None, st2, fx) \<Rightarrow> (st2, shown @ fx)
         | (Some resp, st2, fx) \<Rightarrow>
             (case process_agent_response env resp prompt input_tokens input_cost st2 of
                (st3, fx1) \<Rightarrow> (st3, shown @ fx @ fx1)))"

text \<open>
  \<^verbatim>\<open>render_chat_interface\<close>: the stored messages are shown, and the turn runs when
  \<^verbatim>\<open>chat_input\<close> returns a value that Python takes as true (neither \<^verbatim>\<open>None\<close> nor the
  empty string).
\<close>

definition render_chat_interface ::
  "ustr option \<Rightarrow> 't turn_env \<Rightarrow> 't session \<Rightarrow> 't session \<times> effect list" where
  "render_chat_interface submitted env st =
     (let shown = map (\<lambda>m. Markdown (content m)) (messages st)
      in case submitted of
           None \<Rightarrow> (st, shown)
         | Some prompt \<Rightarrow>
             (if prompt = [] then (st, shown)
              else (case process_user_input env prompt st of (st1, fx) \<Rightarrow> (st1, shown @ fx))))"

text \<open>
  \<^verbatim>\<open>render_session_analytics\<close>. \<open>session_metrics\<close> is what it reads from the store for
  the metric widgets (input tokens, output tokens, their sum, cost, processing time),
  before formatting. \<open>render_session_analytics\<close> is its Reset Session button:
  \<^verbatim>\<open>clear()\<close>, \<^verbatim>\<open>init_state()\<close>, and a flag for \<^verbatim>\<open>st.rerun()\<close>.
\<close>

definition session_metrics :: "'t session \<Rightarrow> int \<times> int \<times> int \<times> double \<times> double" where
  "session_metrics st =
     (total_input_tokens st, total_output_tokens st,
      total_input_tokens st + total_output_tokens st, total_cost st, total_prompt_time st)"

definition render_session_analytics :: "'t run \<Rightarrow> 't session \<Rightarrow> 't session \<times> bool" where
  "render_session_analytics r st =
     (if reset_clicked r then (init_state (reset_id r) (reset_now r) None, True) else (st, False))"

text \<open>
  \<^verbatim>\<open>main\<close>, one script run: \<^verbatim>\<open>init_state\<close>, the analytics column, the chat column.
  After \<^verbatim>\<open>st.rerun()\<close> the script starts again with no widget reporting anything, which
  leaves the store as it is.
\<close>

definition main :: "'t run \<Rightarrow> 't session option \<Rightarrow> 't session option \<times> effect list" where
  "main r ss =
     (let st = init_state (fresh_id r) (now r) ss
      in case render_session_analytics r st of
           (st1, True) \<Rightarrow> (Some st1, [])
         | (st1, False) \<Rightarrow>
             (case render_chat_interface (chat_input r) (turn r) st1 of
                (st2, fx) \<Rightarrow> (Some st2, fx)))"

text \<open>The store after a sequence of script runs.\<close>

fun script_runs :: "'t run list \<Rightarrow> 't session option \<Rightarrow> 't session option" where
  "script_runs [] ss = ss"
| "script_runs (r # rs) ss = script_runs rs (fst (main r ss))"

section \<open>Notions of the specification\<close>

text \<open>
  The number of whitespace-separated tokens of a text, counted without splitting it: a
  token starts at every character that is not whitespace and stands at the start of the
  text or after a whitespace character.
\<close>

fun word_starts :: "bool \<Rightarrow> ustr \<Rightarrow> nat" where
  "word_starts after_space [] = 0"
| "word_starts after_space (c # cs) =
     (if after_space \<and> \<not> isspace c then 1 else 0) + word_starts (isspace c) cs"

definition whitespace_separated_tokens :: "ustr \<Rightarrow> nat" where
  "whitespace_separated_tokens text = word_starts True text"

text \<open>
  The sources section as the specification words it: the pairs of a 1-based citation
  index and a reference URI, in the order of the answer, and one line for each pair.
\<close>

definition numbered_uris :: "citation list \<Rightarrow> (nat \<times> ustr) list" where
  "numbered_uris cs =
     concat (map (\<lambda>(i, c). map (\<lambda>ref. (i, uri ref)) (retrievedReferences c)) (List.enumerate 1 cs))"

definition source_line :: "nat \<times> ustr \<Rightarrow> ustr" where
  "source_line p = lit ''\<newline>'' @ str_int (int (fst p)) @ lit ''. '' @ snd p"

definition sources_section :: "citation list \<Rightarrow> ustr" where
  "sources_section cs = lit ''\<newline>\<newline>**Sources:**'' @ concat (map source_line (numbered_uris cs))"

text \<open>
  The per-turn values of the transcript added up: the token counts of the turns of one
  role, and the costs of all turns, added in transcript order with the program's
  floating-point addition.
\<close>

definition transcript_tokens :: "ustr \<Rightarrow> 't message list \<Rightarrow> int" where
  "transcript_tokens r ms = sum_list (map (\<lambda>m. tokens (metrics m)) (filter (\<lambda>m. role m = r) ms))"

definition transcript_cost :: "'t message list \<Rightarrow> double" where
  "transcript_cost ms = foldl float_add (Double 0 0) (map (\<lambda>m. cost (metrics m)) ms)"

definition counters_match :: "'t session \<Rightarrow> bool" where
  "counters_match st =
     (total_input_tokens st = transcript_tokens (lit ''user'') (messages st) \<and>
      total_output_tokens st = transcript_tokens (lit ''assistant'') (messages st) \<and>
      total_cost st = transcript_cost (messages st))"

text \<open>A script run in which the agent is called and the call raises \<^verbatim>\<open>ClientError\<close>.\<close>

definition call_fails :: "'t run \<Rightarrow> bool" where
  "call_fails r =
     (\<not> reset_clicked r \<and> chat_input r \<noteq> None \<and> chat_input r \<noteq> Some [] \<and>
      (case outcome (turn r) of ClientError e \<Rightarrow> True | Completion events \<Rightarrow> False))"

text \<open>A transcript made of pairs: a user turn, then its assistant turn.\<close>

fun paired :: "'t message list \<Rightarrow> bool" where
  "paired [] = True"
| "paired [m] = False"
| "paired (u # a # ms) = (role u = lit ''user'' \<and> role a = lit ''assistant'' \<and> paired ms)"

text \<open>The response that \<^verbatim>\<open>invoke_agent\<close> returns when the stream \<open>events\<close> was read to its end.\<close>

definition response_of :: "'t turn_env \<Rightarrow> 't event list \<Rightarrow> 't response" where
  "response_of env events =
     (case read_completion events of (text, cits, tr) \<Rightarrow>
        \<lparr>output_text = text, r_citations = cits, r_trace = tr,
         execution_time = float_sub (end_time env) (start_time env)\<rparr>)"

text \<open>The agent calls and the error messages among the effects of a run.\<close>

fun agent_calls :: "effect list \<Rightarrow> request list" where
  "agent_calls [] = []"
| "agent_calls (Invoke req # fx) = req # agent_calls fx"
| "agent_calls (Error msg # fx) = agent_calls fx"
| "agent_calls (Markdown text # fx) = agent_calls fx"
| "agent_calls (Write text # fx) = agent_calls fx"

fun errors_shown :: "effect list \<Rightarrow> ustr list" where
  "errors_shown [] = []"
| "errors_shown (Error msg # fx) = msg # errors_shown fx"
| "errors_shown (Invoke req # fx) = errors_shown fx"
| "errors_shown (Markdown text # fx) = errors_shown fx"
| "errors_shown (Write text # fx) = errors_shown fx"

section \<open>Example inputs\<close>

text \<open>The citations of the specification's example, and the inputs of its example turn.\<close>

definition example_citations :: "citation list" where
  "example_citations =
     [\<lparr>retrievedReferences = [\<lparr>uri = lit ''s3://a''\<rparr>]\<rparr>,
      \<lparr>retrievedReferences = [\<lparr>uri = lit ''s3://b''\<rparr>, \<lparr>uri = lit ''s3://c''\<rparr>]\<rparr>]"

definition example_session :: "unit session" where
  "example_session = init_state (lit ''session-1'') (float_of_int 1700000000) None"

definition example_events :: "unit event list" where
  "example_events =
     [\<lparr>chunk = Some \<lparr>bytes = lit ''hi there friend'', attribution = None\<rparr>, ev_trace = None\<rparr>]"

definition example_turn :: "unit turn_env" where
  "example_turn =
     \<lparr>start_time = float_of_int 1700000010, outcome = Completion example_events,
      end_time = float_of_int 1700000012, user_timestamp = lit ''10:00:12'',
      assistant_timestamp = lit ''10:00:12''\<rparr>"

definition example_failure :: "unit turn_env" where
  "example_failure =
     \<lparr>start_time = float_of_int 1700000010, outcome = ClientError (lit ''throttled''),
      end_time = float_of_int 1700000012, user_timestamp = lit ''10:00:12'',
      assistant_timestamp = lit ''10:00:12''\<rparr>"

definition example_cited_turn :: "unit turn_env" where
  "example_cited_turn =
     \<lparr>start_time = float_of_int 1700000020,
      outcome = Completion
        [\<lparr>chunk = Some \<lparr>bytes = lit ''Go team'', attribution = Some example_citations\<rparr>,
          ev_trace = None\<rparr>],
      end_time = float_of_int 1700000021, user_timestamp = lit ''10:00:21'',
      assistant_timestamp = lit ''10:00:21''\<rparr>"

text \<open>
  Script runs: the first load of the page with the utterance \<open>hello world\<close> submitted
  and answered, and the same with a failing call.
\<close>

definition example_run :: "unit run" where
  "example_run =
     \<lparr>fresh_id = lit ''session-1'', now = float_of_int 1700000000, reset_clicked = False,
      reset_id = lit ''session-2'', reset_now = float_of_int 1700000030,
      chat_input = Some (lit ''hello world''), turn = example_turn\<rparr>"

definition example_failed_run :: "unit run" where
  "example_failed_run =
     \<lparr>fresh_id = lit ''session-1'', now = float_of_int 1700000000, reset_clicked = False,
      reset_id = lit ''session-2'', reset_now = float_of_int 1700000030,
      chat_input = Some (lit ''hello world''), turn = example_failure\<rparr>"

section \<open>The agent call and the sources section\<close>

lemma invoke_agent_fail:
  "outcome env = ClientError e \<Longrightarrow>
   invoke_agent env prompt st =
     (None, st,
      [Invoke \<lparr>agentId = AGENT_ID, agentAliasId = AGENT_ALIAS_ID, enableTrace = True,
               sessionId = session_id st, inputText = prompt\<rparr>,
       Error (lit ''Error invoking agent: '' @ e)])"
  by (simp add: invoke_agent_def)

lemma invoke_agent_ok:
  "outcome env = Completion events \<Longrightarrow> read_completion events = (text, cits, tr) \<Longrightarrow>
   invoke_agent env prompt st =
     (Some \<lparr>output_text = text, r_citations = cits, r_trace = tr,
            execution_time = float_sub (end_time env) (start_time env)\<rparr>,
      st\<lparr>total_prompt_time :=
           float_add (total_prompt_time st) (float_sub (end_time env) (start_time env))\<rparr>,
      [Invoke \<lparr>agentId = AGENT_ID, agentAliasId = AGENT_ALIAS_ID, enableTrace = True,
               sessionId = session_id st, inputText = prompt\<rparr>])"
  by (simp add: invoke_agent_def Let_def)

lemma reference_lines_append:
  "reference_lines idx refs acc =
     acc @ concat (map (\<lambda>ref. lit ''\<newline>'' @ str_int idx @ lit ''. '' @ uri ref) refs)"
  by (induction refs arbitrary: acc) simp_all

lemma source_line_pair:
  "source_line (i, u) = lit ''\<newline>'' @ str_int (int i) @ lit ''. '' @ u"
  by (simp add: source_line_def)

lemma citation_lines_append:
  "citation_lines (int n) cs acc =
     acc @ concat (map source_line
        (concat (map (\<lambda>(i, c). map (\<lambda>ref. (i, uri ref)) (retrievedReferences c)) (List.enumerate n cs))))"
proof (induction cs arbitrary: n acc)
  case Nil
  then show ?case by simp
next
  case (Cons c cs)
  have step: "citation_lines (int n) (c # cs) acc =
      citation_lines (int (Suc n)) cs (reference_lines (int n) (retrievedReferences c) acc)"
    by (simp add: add.commute)
  show ?case
    unfolding step Cons.IH
    by (simp add: reference_lines_append source_line_pair comp_def)
qed

lemma citation_lines_sources:
  "citation_lines 1 cs (lit ''\<newline>\<newline>**Sources:**'') = sources_section cs"
  using citation_lines_append [of 1 cs] by (simp add: sources_section_def numbered_uris_def)

lemma process_agent_response_messages:
  "messages (fst (process_agent_response env resp prompt input_tokens input_cost st)) =
     messages st @
       [\<lparr>role = lit ''user'', content = prompt,
         metrics = \<lparr>tokens = input_tokens, cost = input_cost, timestamp = user_timestamp env,
                    m_execution_time = None, m_trace = None\<rparr>\<rparr>,
        \<lparr>role = lit ''assistant'',
         content = output_text resp @ (if r_citations resp = [] then [] else sources_section (r_citations resp)),
         metrics = \<lparr>tokens = count_tokens (output_text resp),
                    cost = int_times_float (count_tokens (output_text resp)) COST_PER_OUTPUT_TOKEN,
                    timestamp = assistant_timestamp env,
                    m_execution_time = Some (execution_time resp),
                    m_trace = Some (r_trace resp)\<rparr>\<rparr>]"
  by (simp add: process_agent_response_def store_messages_def Let_def citation_lines_sources)


lemma sources_section_example:
  "sources_section example_citations =
     lit ''\<newline>\<newline>**Sources:**\<newline>1. s3://a\<newline>2. s3://b\<newline>2. s3://c''"
  by (simp add: sources_section_def numbered_uris_def example_citations_def source_line_def
      str_int_def digits.simps lit_def)

text \<open>
  Claim C3. When the response has at least one citation, the text that is stored as the
  assistant turn and shown is the response text followed by the sources section: the
  header, then one line \<open>index. uri\<close> for every pair of a 1-based citation index and a
  reference URI, in the order of the response, the index repeated for each reference of
  one citation. The section depends on the citations only. For the citations of the
  example the section is the header and the lines \<open>1. s3://a\<close>, \<open>2. s3://b\<close>,
  \<open>2. s3://c\<close>.
\<close>

theorem sources_section_appended:
  "(r_citations resp \<noteq> [] \<longrightarrow>
      content (last (messages (fst (process_agent_response env resp prompt n c st)))) =
        output_text resp @ sources_section (r_citations resp) \<and>
      snd (process_agent_response env resp prompt n c st) =
        [Markdown (output_text resp @ sources_section (r_citations resp))]) \<and>
   (r_citations resp = example_citations \<longrightarrow>
      content (last (messages (fst (process_agent_response env resp prompt n c st)))) =
        output_text resp @
        lit ''\<newline>\<newline>**Sources:**\<newline>1. s3://a\<newline>2. s3://b\<newline>2. s3://c'')"
proof -
  have shown: "r_citations resp \<noteq> [] \<Longrightarrow>
      snd (process_agent_response env resp prompt n c st) =
        [Markdown (output_text resp @ sources_section (r_citations resp))]"
    by (simp add: process_agent_response_def Let_def citation_lines_sources)
  have ex: "example_citations \<noteq> []"
    by (simp add: example_citations_def)
  show ?thesis
    using shown ex by (auto simp add: process_agent_response_messages sources_section_example)
qed

theorem sources_section_appended_witness:
  "content (last (messages (fst (process_agent_response example_turn
       \<lparr>output_text = lit ''Go team'', r_citations = example_citations, r_trace = [],
        execution_time = float_of_int 2\<rparr> (lit ''poem please'') 2 (Double 0 0) example_session)))) =
   lit ''Go team\<newline>\<newline>**Sources:**\<newline>1. s3://a\<newline>2. s3://b\<newline>2. s3://c''"
  using sources_section_appended [of "\<lparr>output_text = lit ''Go team'', r_citations = example_citations, r_trace = [],
        execution_time = float_of_int 2\<rparr>" example_turn "lit ''poem please''" 2 "Double 0 0" example_session]
  by (simp add: lit_def)

section \<open>One turn\<close>

lemma invoke_agent_completion:
  "outcome env = Completion events \<Longrightarrow>
   invoke_agent env prompt st =
     (Some (response_of env events),
      st\<lparr>total_prompt_time := float_add (total_prompt_time st) (execution_time (response_of env events))\<rparr>,
      [Invoke \<lparr>agentId = AGENT_ID, agentAliasId = AGENT_ALIAS_ID, enableTrace = True,
               sessionId = session_id st, inputText = prompt\<rparr>])"
  by (simp add: invoke_agent_def response_of_def Let_def split: prod.splits)

lemma process_user_input_fail:
  "outcome env = ClientError e \<Longrightarrow>
   process_user_input env prompt st =
     (st\<lparr>total_input_tokens := total_input_tokens st + count_tokens prompt,
         total_cost := float_add (total_cost st)
                         (int_times_float (count_tokens prompt) COST_PER_INPUT_TOKEN)\<rparr>,
      [Write prompt, Markdown (lit ''Thinking...''),
       Invoke \<lparr>agentId = AGENT_ID, agentAliasId = AGENT_ALIAS_ID, enableTrace = True,
               sessionId = session_id st, inputText = prompt\<rparr>,
       Error (lit ''Error invoking agent: '' @ e)])"
  by (simp add: process_user_input_def invoke_agent_fail Let_def)

lemma process_user_input_ok:
  "outcome env = Completion events \<Longrightarrow>
   fst (process_user_input env prompt st) =
     fst (process_agent_response env (response_of env events) prompt (count_tokens prompt)
            (int_times_float (count_tokens prompt) COST_PER_INPUT_TOKEN)
            (st\<lparr>total_input_tokens := total_input_tokens st + count_tokens prompt,
                total_cost := float_add (total_cost st)
                                (int_times_float (count_tokens prompt) COST_PER_INPUT_TOKEN),
                total_prompt_time := float_add (total_prompt_time st)
                                       (execution_time (response_of env events))\<rparr>))"
  by (simp add: process_user_input_def invoke_agent_completion Let_def split: prod.splits)

lemma process_agent_response_counters:
  "total_output_tokens (fst (process_agent_response env resp prompt n c st)) =
     total_output_tokens st + count_tokens (output_text resp)"
  "total_cost (fst (process_agent_response env resp prompt n c st)) =
     float_add (total_cost st) (int_times_float (count_tokens (output_text resp)) COST_PER_OUTPUT_TOKEN)"
  "total_input_tokens (fst (process_agent_response env resp prompt n c st)) = total_input_tokens st"
  "total_prompt_time (fst (process_agent_response env resp prompt n c st)) = total_prompt_time st"
  "session_id (fst (process_agent_response env resp prompt n c st)) = session_id st"
  "session_start_time (fst (process_agent_response env resp prompt n c st)) = session_start_time st"
  by (simp_all add: process_agent_response_def store_messages_def Let_def)

text \<open>
  Claim C4. After a successful exchange the transcript has two more turns, the user turn
  and then the assistant turn. The assistant turn's content is the response text
  followed by the sources section when there are citations; its token count and cost,
  and what is added to the cumulative output tokens and cost, are computed from the
  response text alone.
\<close>

theorem assistant_turn_content_and_charge:
  "outcome env = Completion events \<Longrightarrow>
   messages (fst (process_user_input env prompt st)) =
     messages st @
       [\<lparr>role = lit ''user'', content = prompt,
         metrics = \<lparr>tokens = count_tokens prompt,
                    cost = int_times_float (count_tokens prompt) COST_PER_INPUT_TOKEN,
                    timestamp = user_timestamp env,
                    m_execution_time = None, m_trace = None\<rparr>\<rparr>,
        \<lparr>role = lit ''assistant'',
         content = output_text (response_of env events) @
                   (if r_citations (response_of env events) = [] then []
                    else sources_section (r_citations (response_of env events))),
         metrics = \<lparr>tokens = count_tokens (output_text (response_of env events)),
                    cost = int_times_float (count_tokens (output_text (response_of env events)))
                             COST_PER_OUTPUT_TOKEN,
                    timestamp = assistant_timestamp env,
                    m_execution_time = Some (execution_time (response_of env events)),
                    m_trace = Some (r_trace (response_of env events))\<rparr>\<rparr>] \<and>
   total_output_tokens (fst (process_user_input env prompt st)) =
     total_output_tokens st + count_tokens (output_text (response_of env events)) \<and>
   total_cost (fst (process_user_input env prompt st)) =
     float_add (float_add (total_cost st) (int_times_float (count_tokens prompt) COST_PER_INPUT_TOKEN))
       (int_times_float (count_tokens (output_text (response_of env events))) COST_PER_OUTPUT_TOKEN)"
  by (simp add: process_user_input_ok process_agent_response_messages process_agent_response_counters)


lemma example_cited_response:
  "response_of example_cited_turn
     [\<lparr>chunk = Some \<lparr>bytes = lit ''Go team'', attribution = Some example_citations\<rparr>,
       ev_trace = None :: (ustr \<times> unit) list option\<rparr>] =
   \<lparr>output_text = lit ''Go team'', r_citations = example_citations, r_trace = [],
    execution_time = float_sub (float_of_int 1700000021) (float_of_int 1700000020)\<rparr>"
  by (simp add: response_of_def read_completion_def read_event_def example_cited_turn_def)

lemma lit_append: "lit a @ lit b = lit (a @ b)"
  by (simp add: lit_def)

lemma count_tokens_examples:
  "count_tokens (lit ''poem please'') = 2"
  "count_tokens (lit ''Go team'') = 2"
  "count_tokens (lit ''hello world'') = 2"
  "count_tokens (lit ''hi there friend'') = 3"
  by (simp_all add: count_tokens_def str_split_def lit_def isspace_def)

theorem assistant_turn_content_and_charge_witness:
  "map content (messages (fst (process_user_input example_cited_turn (lit ''poem please'') example_session))) =
     [lit ''poem please'',
      lit ''Go team\<newline>\<newline>**Sources:**\<newline>1. s3://a\<newline>2. s3://b\<newline>2. s3://c''] \<and>
   map (\<lambda>m. tokens (metrics m))
     (messages (fst (process_user_input example_cited_turn (lit ''poem please'') example_session))) = [2, 2] \<and>
   total_output_tokens (fst (process_user_input example_cited_turn (lit ''poem please'') example_session)) = 2"
proof -
  have ok: "outcome example_cited_turn = Completion
        [\<lparr>chunk = Some \<lparr>bytes = lit ''Go team'', attribution = Some example_citations\<rparr>,
          ev_trace = None\<rparr>]"
    by (simp add: example_cited_turn_def)
  have ne: "example_citations \<noteq> []"
    by (simp add: example_citations_def)
  have s0: "messages example_session = []" "total_output_tokens example_session = 0"
    by (simp_all add: example_session_def init_state_def)
  show ?thesis
    using assistant_turn_content_and_charge [OF ok, of "lit ''poem please''" example_session]
    by (simp add: example_cited_response count_tokens_examples sources_section_example ne s0 lit_append)
qed


section \<open>The sources header\<close>

lemma no_references_no_lines:
  "list_all (\<lambda>c. retrievedReferences c = []) cs \<Longrightarrow>
   concat (map (\<lambda>(i, c). map (\<lambda>ref. (i, uri ref)) (retrievedReferences c)) (List.enumerate n cs)) = []"
  by (induction cs arbitrary: n) simp_all

lemma sources_section_header_only:
  "list_all (\<lambda>c. retrievedReferences c = []) cs \<Longrightarrow> sources_section cs = lit ''\<newline>\<newline>**Sources:**''"
  by (simp add: sources_section_def numbered_uris_def no_references_no_lines)

text \<open>
  Claim C10. When the response has citations and none of them has a retrieved
  reference, the assistant content is the response text followed by the header
  \<open>**Sources:**\<close> alone. Whenever the citation list is not empty the header follows
  the response text; when it is empty the content is the response text.
\<close>

theorem header_without_references:
  "(r_citations resp \<noteq> [] \<and> list_all (\<lambda>c. retrievedReferences c = []) (r_citations resp) \<longrightarrow>
      content (last (messages (fst (process_agent_response env resp prompt n c st)))) =
        output_text resp @ lit ''\<newline>\<newline>**Sources:**'') \<and>
   (r_citations resp \<noteq> [] \<longrightarrow>
      (\<exists>lines. content (last (messages (fst (process_agent_response env resp prompt n c st)))) =
        output_text resp @ lit ''\<newline>\<newline>**Sources:**'' @ lines)) \<and>
   (r_citations resp = [] \<longrightarrow>
      content (last (messages (fst (process_agent_response env resp prompt n c st)))) =
        output_text resp)"
proof (intro conjI impI)
  assume "r_citations resp \<noteq> [] \<and> list_all (\<lambda>c. retrievedReferences c = []) (r_citations resp)"
  then show "content (last (messages (fst (process_agent_response env resp prompt n c st)))) =
        output_text resp @ lit ''\<newline>\<newline>**Sources:**''"
    by (simp add: process_agent_response_messages sources_section_header_only)
next
  assume "r_citations resp \<noteq> []"
  then show "\<exists>lines. content (last (messages (fst (process_agent_response env resp prompt n c st)))) =
        output_text resp @ lit ''\<newline>\<newline>**Sources:**'' @ lines"
    by (simp add: process_agent_response_messages sources_section_def)
next
  assume "r_citations resp = []"
  then show "content (last (messages (fst (process_agent_response env resp prompt n c st)))) =
        output_text resp"
    by (simp add: process_agent_response_messages)
qed

theorem header_without_references_witness:
  "content (last (messages (fst (process_agent_response example_turn
       \<lparr>output_text = lit ''Go team'',
        r_citations = [\<lparr>retrievedReferences = []\<rparr>, \<lparr>retrievedReferences = []\<rparr>],
        r_trace = [], execution_time = float_of_int 2\<rparr>
       (lit ''poem please'') 2 (Double 0 0) example_session)))) =
     lit ''Go team\<newline>\<newline>**Sources:**'' \<and>
   content (last (messages (fst (process_agent_response example_turn
       \<lparr>output_text = lit ''Go team'', r_citations = [],
        r_trace = [], execution_time = float_of_int 2\<rparr>
       (lit ''poem please'') 2 (Double 0 0) example_session)))) =
     lit ''Go team''"
  using header_without_references [of "\<lparr>output_text = lit ''Go team'',
        r_citations = [\<lparr>retrievedReferences = []\<rparr>, \<lparr>retrievedReferences = []\<rparr>],
        r_trace = [], execution_time = float_of_int 2\<rparr>" example_turn "lit ''poem please''" 2 "Double 0 0" example_session]
    header_without_references [of "\<lparr>output_text = lit ''Go team'', r_citations = [],
        r_trace = [], execution_time = float_of_int 2\<rparr>" example_turn "lit ''poem please''" 2 "Double 0 0" example_session]
  by (simp add: lit_append)

section \<open>The session store\<close>

text \<open>
  Claim C8. On a store that is not initialised, \<^verbatim>\<open>init_state\<close> sets the fresh
  identifier, an empty transcript, zero counters and the start time; on an initialised
  store it changes nothing, so a second call leaves the result of the first.
\<close>

theorem init_state_idempotent:
  "init_state uuid4 t None =
     \<lparr>session_id = uuid4, messages = [], citations = [], trace = [],
      total_cost = Double 0 0, total_input_tokens = 0, total_output_tokens = 0,
      session_start_time = t, total_prompt_time = Double 0 0\<rparr> \<and>
   init_state uuid4' t' (Some st) = st \<and>
   init_state uuid4' t' (Some (init_state uuid4 t ss)) = init_state uuid4 t ss"
  by (simp add: init_state_def)

theorem init_state_idempotent_witness:
  "init_state (lit ''b'') (float_of_int 2) (Some example_session) = example_session \<and>
   messages (init_state (lit ''b'') (float_of_int 2) (Some example_session)) = [] \<and>
   session_id (init_state (lit ''b'') (float_of_int 2) (Some example_session)) = lit ''session-1''"
proof -
  have "init_state (lit ''b'') (float_of_int 2) (Some example_session) = example_session"
    using init_state_idempotent [of "lit ''a''" "float_of_int 1" "lit ''b''" "float_of_int 2"
        example_session None]
    by blast
  then show ?thesis
    by (simp add: example_session_def init_state_def)
qed

lemma main_reset:
  "reset_clicked r \<Longrightarrow> main r ss = (Some (init_state (reset_id r) (reset_now r) None), [])"
  by (simp add: main_def render_session_analytics_def Let_def)

lemma main_no_widget:
  "\<not> reset_clicked r \<Longrightarrow> chat_input r = None \<Longrightarrow> fst (main r (Some st)) = Some st"
  by (simp add: main_def render_session_analytics_def render_chat_interface_def init_state_def Let_def)

text \<open>
  Claim C6. Whatever the store held, after the script run in which Reset Session was
  clicked, and after the rerun that follows it, the metrics read for display are all
  zero and the transcript is empty.
\<close>

theorem reset_yields_zero_metrics:
  "reset_clicked r \<Longrightarrow> \<not> reset_clicked r' \<Longrightarrow> chat_input r' = None \<Longrightarrow>
   map_option (\<lambda>st. (session_metrics st, messages st)) (fst (main r ss)) =
     Some ((0, 0, 0, Double 0 0, Double 0 0), []) \<and>
   map_option (\<lambda>st. (session_metrics st, messages st)) (fst (main r' (fst (main r ss)))) =
     Some ((0, 0, 0, Double 0 0, Double 0 0), [])"
  by (simp add: main_reset main_no_widget) (simp add: init_state_def session_metrics_def)

theorem reset_yields_zero_metrics_witness:
  "map_option (\<lambda>st. (session_metrics st, messages st))
     (fst (main \<lparr>fresh_id = lit ''a'', now = float_of_int 5, reset_clicked = True,
                 reset_id = lit ''b'', reset_now = float_of_int 6, chat_input = None,
                 turn = example_turn\<rparr>
            (Some (fst (process_user_input example_turn (lit ''hello world'') example_session))))) =
     Some ((0, 0, 0, Double 0 0, Double 0 0), [])"
  using reset_yields_zero_metrics [of "\<lparr>fresh_id = lit ''a'', now = float_of_int 5, reset_clicked = True,
                 reset_id = lit ''b'', reset_now = float_of_int 6, chat_input = None,
                 turn = example_turn\<rparr>"
       "\<lparr>fresh_id = lit ''a'', now = float_of_int 5, reset_clicked = False,
                 reset_id = lit ''b'', reset_now = float_of_int 6, chat_input = None,
                 turn = example_turn\<rparr>"
       "Some (fst (process_user_input example_turn (lit ''hello world'') example_session))"]
  by simp

section \<open>Empty input\<close>

lemma agent_calls_history [simp]: "agent_calls (map (\<lambda>m. Markdown (content m)) ms) = []"
  by (induction ms) simp_all

text \<open>
  Claim C9, as the program has it. Empty text does not reach the turn: when
  \<^verbatim>\<open>chat_input\<close> returns the empty text (or nothing), \<^verbatim>\<open>render_chat_interface\<close> does not
  call \<^verbatim>\<open>process_user_input\<close>, so the store is unchanged, no turn is recorded, no
  counter moves and the agent is not called. The same holds of the whole script run.
\<close>

theorem empty_input_is_noop:
  "fst (render_chat_interface (Some []) env st) = st \<and>
   agent_calls (snd (render_chat_interface (Some []) env st)) = [] \<and>
   fst (render_chat_interface None env st) = st \<and>
   agent_calls (snd (render_chat_interface None env st)) = [] \<and>
   (\<not> reset_clicked r \<and> (chat_input r = Some [] \<or> chat_input r = None) \<longrightarrow>
      fst (main r (Some st)) = Some st \<and> agent_calls (snd (main r (Some st))) = [])"
  by (auto simp add: render_chat_interface_def main_def render_session_analytics_def
      init_state_def Let_def)

theorem empty_input_is_noop_witness:
  "fst (render_chat_interface (Some []) example_turn example_session) = example_session \<and>
   agent_calls (snd (render_chat_interface (Some []) example_turn example_session)) = [] \<and>
   fst (main (example_run\<lparr>chat_input := Some []\<rparr>) (Some example_session)) = Some example_session \<and>
   agent_calls (snd (main (example_run\<lparr>chat_input := Some []\<rparr>) (Some example_session))) = []"
proof -
  have "\<not> reset_clicked (example_run\<lparr>chat_input := Some []\<rparr>) \<and>
      (chat_input (example_run\<lparr>chat_input := Some []\<rparr>) = Some [] \<or>
       chat_input (example_run\<lparr>chat_input := Some []\<rparr>) = None)"
    by (simp add: example_run_def)
  with empty_input_is_noop [of example_turn example_session "example_run\<lparr>chat_input := Some []\<rparr>"]
  show ?thesis
    by blast
qed

text \<open>
  \<^verbatim>\<open>process_user_input\<close> itself does not look at the text: called with the empty text
  and a service that answers, it calls the agent and records two turns. The test for the
  empty text is the one of \<^verbatim>\<open>render_chat_interface\<close>, its only caller.
\<close>

lemma process_user_input_no_guard:
  "outcome env = Completion events \<Longrightarrow>
   length (messages (fst (process_user_input env [] st))) = length (messages st) + 2 \<and>
   agent_calls (snd (process_user_input env [] st)) =
     [\<lparr>agentId = AGENT_ID, agentAliasId = AGENT_ALIAS_ID, enableTrace = True,
       sessionId = session_id st, inputText = []\<rparr>]"
  by (simp add: process_user_input_ok process_agent_response_messages)
    (simp add: process_user_input_def invoke_agent_completion process_agent_response_def Let_def)

text \<open>
  The empty text given to \<^verbatim>\<open>process_user_input\<close> on a new session, with a service that
  answers: the agent is called with the empty text and two turns are recorded.
\<close>

theorem turn_processor_runs_on_empty_text:
  "messages example_session = [] \<and>
   length (messages (fst (process_user_input example_turn [] example_session))) = 2 \<and>
   agent_calls (snd (process_user_input example_turn [] example_session)) =
     [\<lparr>agentId = AGENT_ID, agentAliasId = AGENT_ALIAS_ID, enableTrace = True,
       sessionId = lit ''session-1'', inputText = []\<rparr>]"
proof -
  have o: "outcome example_turn = Completion example_events"
    by (simp add: example_turn_def)
  have s: "messages example_session = []" "session_id example_session = lit ''session-1''"
    by (simp_all add: example_session_def init_state_def)
  from process_user_input_no_guard [OF o, of example_session] show ?thesis
    by (simp add: s)
qed

section \<open>A failed agent call\<close>

lemma example_costs:
  "int_times_float 2 COST_PER_INPUT_TOKEN = round_ratio 5 10000"
  "int_times_float 3 COST_PER_OUTPUT_TOKEN = round_ratio 75 100000"
  "float_add (Double 0 0) (round_ratio 5 10000) = round_ratio 5 10000"
  "float_add (round_ratio 5 10000) (round_ratio 75 100000) = round_ratio 125 100000"
  "round_ratio 5 10000 \<noteq> Double 0 0"
  by code_simp+

text \<open>
  Claim C1, as the program has it. When the agent call raises \<^verbatim>\<open>ClientError\<close>, no turn
  is recorded, one error message is shown, and the transcript, the output-token counter
  and the processing time are unchanged; the agent was called once. The input-token
  counter and the cost counter were increased by the utterance's token count and cost
  before the call, and they stay increased.
\<close>

theorem failed_call_effect:
  "outcome env = ClientError e \<Longrightarrow>
   messages (fst (process_user_input env prompt st)) = messages st \<and>
   total_output_tokens (fst (process_user_input env prompt st)) = total_output_tokens st \<and>
   total_prompt_time (fst (process_user_input env prompt st)) = total_prompt_time st \<and>
   total_input_tokens (fst (process_user_input env prompt st)) =
     total_input_tokens st + count_tokens prompt \<and>
   total_cost (fst (process_user_input env prompt st)) =
     float_add (total_cost st) (int_times_float (count_tokens prompt) COST_PER_INPUT_TOKEN) \<and>
   errors_shown (snd (process_user_input env prompt st)) = [lit ''Error invoking agent: '' @ e] \<and>
   agent_calls (snd (process_user_input env prompt st)) =
     [\<lparr>agentId = AGENT_ID, agentAliasId = AGENT_ALIAS_ID, enableTrace = True,
       sessionId = session_id st, inputText = prompt\<rparr>]"
  by (simp add: process_user_input_fail)

theorem failed_call_effect_witness:
  "messages (fst (process_user_input example_failure (lit ''hello world'') example_session)) = [] \<and>
   total_output_tokens (fst (process_user_input example_failure (lit ''hello world'') example_session)) = 0 \<and>
   total_prompt_time (fst (process_user_input example_failure (lit ''hello world'') example_session)) = Double 0 0 \<and>
   errors_shown (snd (process_user_input example_failure (lit ''hello world'') example_session)) =
     [lit ''Error invoking agent: throttled'']"
proof -
  have f: "outcome example_failure = ClientError (lit ''throttled'')"
    by (simp add: example_failure_def)
  have s0: "messages example_session = []" "total_output_tokens example_session = 0"
    "total_prompt_time example_session = Double 0 0"
    by (simp_all add: example_session_def init_state_def)
  show ?thesis
    using failed_call_effect [OF f, of "lit ''hello world''" example_session]
    by (simp add: s0 lit_append)
qed
text \<open>
  The utterance \<open>hello world\<close> on a new session, with a failing call: the input-token
  counter goes from 0 to 2 and the cost from 0 to the double \<open>0.0005\<close>, so the counters
  are not all left unchanged.
\<close>

theorem failed_call_charges_input:
  "outcome example_failure = ClientError (lit ''throttled'') \<and>
   total_input_tokens example_session = 0 \<and>
   total_input_tokens (fst (process_user_input example_failure (lit ''hello world'') example_session)) = 2 \<and>
   total_cost example_session = Double 0 0 \<and>
   total_cost (fst (process_user_input example_failure (lit ''hello world'') example_session)) =
     round_ratio 5 10000 \<and>
   total_cost (fst (process_user_input example_failure (lit ''hello world'') example_session)) \<noteq>
     total_cost example_session"
proof -
  have f: "outcome example_failure = ClientError (lit ''throttled'')"
    by (simp add: example_failure_def)
  have s0: "total_input_tokens example_session = 0" "total_cost example_session = Double 0 0"
    by (simp_all add: example_session_def init_state_def)
  show ?thesis
    by (simp add: f s0 process_user_input_fail [OF f] count_tokens_examples example_costs)
qed


section \<open>Sequences of script runs\<close>

lemma roles_differ: "lit ''user'' \<noteq> lit ''assistant''"
  by (simp add: lit_def)

lemma paired_append:
  "paired ms \<Longrightarrow> role u = lit ''user'' \<Longrightarrow> role a = lit ''assistant'' \<Longrightarrow> paired (ms @ [u, a])"
  by (induction ms rule: paired.induct) simp_all

lemma paired_nth:
  "paired ms \<Longrightarrow> 2 * k < length ms \<Longrightarrow>
   role (ms ! (2 * k)) = lit ''user'' \<and> 2 * k + 1 < length ms \<and>
   role (ms ! (2 * k + 1)) = lit ''assistant''"
proof (induction ms arbitrary: k rule: paired.induct)
  case 1
  then show ?case by simp
next
  case (2 m)
  then show ?case by simp
next
  case (3 u a ms)
  show ?case
  proof (cases k)
    case 0
    with 3 show ?thesis by simp
  next
    case (Suc j)
    with 3 have "2 * j < length ms" "paired ms"
      by simp_all
    then have "role (ms ! (2 * j)) = lit ''user'' \<and> 2 * j + 1 < length ms \<and>
        role (ms ! (2 * j + 1)) = lit ''assistant''"
      by (rule "3.IH" [rotated])
    with Suc show ?thesis by simp
  qed
qed

lemma process_user_input_messages:
  "messages (fst (process_user_input env prompt st)) =
     (case outcome env of
        ClientError e \<Rightarrow> messages st
      | Completion events \<Rightarrow>
          messages st @
            [\<lparr>role = lit ''user'', content = prompt,
              metrics = \<lparr>tokens = count_tokens prompt,
                         cost = int_times_float (count_tokens prompt) COST_PER_INPUT_TOKEN,
                         timestamp = user_timestamp env,
                         m_execution_time = None, m_trace = None\<rparr>\<rparr>,
             \<lparr>role = lit ''assistant'',
              content = output_text (response_of env events) @
                        (if r_citations (response_of env events) = [] then []
                         else sources_section (r_citations (response_of env events))),
              metrics = \<lparr>tokens = count_tokens (output_text (response_of env events)),
                         cost = int_times_float (count_tokens (output_text (response_of env events)))
                                  COST_PER_OUTPUT_TOKEN,
                         timestamp = assistant_timestamp env,
                         m_execution_time = Some (execution_time (response_of env events)),
                         m_trace = Some (r_trace (response_of env events))\<rparr>\<rparr>])"
  by (cases "outcome env")
    (simp_all add: process_user_input_fail process_user_input_ok process_agent_response_messages)

lemma process_user_input_paired:
  "paired (messages st) \<Longrightarrow> paired (messages (fst (process_user_input env prompt st)))"
  by (cases "outcome env") (simp_all add: process_user_input_messages paired_append)

lemma main_result:
  "fst (main r ss) =
     Some (if reset_clicked r then init_state (reset_id r) (reset_now r) None
           else fst (render_chat_interface (chat_input r) (turn r) (init_state (fresh_id r) (now r) ss)))"
  by (simp add: main_def render_session_analytics_def Let_def split: prod.splits)

lemma render_chat_interface_state:
  "fst (render_chat_interface submitted env st) =
     (case submitted of None \<Rightarrow> st
      | Some prompt \<Rightarrow> if prompt = [] then st else fst (process_user_input env prompt st))"
  by (simp add: render_chat_interface_def Let_def split: option.splits prod.splits)

lemma init_state_paired:
  "(case ss of None \<Rightarrow> True | Some st \<Rightarrow> paired (messages st)) \<Longrightarrow>
   paired (messages (init_state uuid4 t ss))"
  by (simp add: init_state_def split: option.splits)

lemma main_paired:
  assumes "case ss of None \<Rightarrow> True | Some st \<Rightarrow> paired (messages st)"
  shows "case fst (main r ss) of None \<Rightarrow> True | Some st \<Rightarrow> paired (messages st)"
proof -
  have p: "paired (messages (init_state (fresh_id r) (now r) ss))"
    using assms by (rule init_state_paired)
  have q: "paired (messages (init_state (reset_id r) (reset_now r) None :: 'a session))"
    by (simp add: init_state_def)
  show ?thesis
    using p q
    by (simp add: main_result render_chat_interface_state process_user_input_paired
        split: option.splits)
qed

lemma script_runs_paired:
  "(case ss of None \<Rightarrow> True | Some st \<Rightarrow> paired (messages st)) \<Longrightarrow>
   (case script_runs rs ss of None \<Rightarrow> True | Some st \<Rightarrow> paired (messages st))"
proof (induction rs arbitrary: ss)
  case Nil
  then show ?case by simp
next
  case (Cons r rs)
  from Cons.prems have "case fst (main r ss) of None \<Rightarrow> True | Some st \<Rightarrow> paired (messages st)"
    by (rule main_paired)
  then show ?case
    using Cons.IH by simp
qed

lemma example_response:
  "response_of example_turn example_events =
     \<lparr>output_text = lit ''hi there friend'', r_citations = [], r_trace = [],
      execution_time = float_sub (float_of_int 1700000012) (float_of_int 1700000010)\<rparr>"
  by (simp add: response_of_def read_completion_def read_event_def example_events_def
      example_turn_def)

lemma example_run_messages:
  "map_option (\<lambda>st. map (\<lambda>m. (role m, content m, tokens (metrics m))) (messages st))
     (script_runs [example_run] None) =
   Some [(lit ''user'', lit ''hello world'', 2), (lit ''assistant'', lit ''hi there friend'', 3)]"
proof -
  have o: "outcome example_turn = Completion example_events"
    by (simp add: example_turn_def)
  have i: "init_state (lit ''session-1'') (float_of_int 1700000000) None = example_session"
    by (simp add: example_session_def)
  have m: "messages example_session = []"
    by (simp add: example_session_def init_state_def)
  have l: "lit ''hello world'' \<noteq> []"
    by (simp add: lit_def)
  show ?thesis
    by (simp add: main_result render_chat_interface_state example_run_def i l
        process_user_input_messages o example_response m count_tokens_examples)
qed

text \<open>
  Claim C5. In the store after any sequence of script runs of a session, every even
  position \<open>2k\<close> of the transcript holds a user turn, and the position after it exists
  and holds an assistant turn.
\<close>

theorem turns_alternate:
  "script_runs rs None = Some st \<Longrightarrow> 2 * k < length (messages st) \<Longrightarrow>
   role (messages st ! (2 * k)) = lit ''user'' \<and> 2 * k + 1 < length (messages st) \<and>
   role (messages st ! (2 * k + 1)) = lit ''assistant''"
proof -
  assume run: "script_runs rs None = Some st" and k: "2 * k < length (messages st)"
  have "case script_runs rs (None :: 'a session option) of None \<Rightarrow> True
        | Some st \<Rightarrow> paired (messages st)"
    by (rule script_runs_paired) simp
  with run have "paired (messages st)"
    by simp
  then show ?thesis
    using k by (rule paired_nth)
qed

theorem turns_alternate_witness:
  "role (messages (the (script_runs [example_run] None)) ! 0) = lit ''user'' \<and>
   role (messages (the (script_runs [example_run] None)) ! 1) = lit ''assistant''"
proof -
  obtain st where st: "script_runs [example_run] None = Some st"
    using example_run_messages by blast
  with example_run_messages have "length (messages st) = 2"
    by (auto dest: arg_cong [where f = length])
  then have "2 * 0 < length (messages st)"
    by simp
  from turns_alternate [OF st this] show ?thesis
    unfolding st by simp
qed


section \<open>Counters and transcript\<close>

lemma transcript_tokens_append:
  "transcript_tokens r (ms @ ms') = transcript_tokens r ms + transcript_tokens r ms'"
  by (simp add: transcript_tokens_def)

lemma transcript_cost_append:
  "transcript_cost (ms @ [u, a]) =
     float_add (float_add (transcript_cost ms) (cost (metrics u))) (cost (metrics a))"
  by (simp add: transcript_cost_def)

lemma counters_match_init: "counters_match (init_state uuid4 t None)"
  by (simp add: counters_match_def init_state_def transcript_tokens_def transcript_cost_def)

lemma process_user_input_counters:
  "outcome env = Completion events \<Longrightarrow>
   total_input_tokens (fst (process_user_input env prompt st)) =
     total_input_tokens st + count_tokens prompt \<and>
   total_output_tokens (fst (process_user_input env prompt st)) =
     total_output_tokens st + count_tokens (output_text (response_of env events)) \<and>
   total_cost (fst (process_user_input env prompt st)) =
     float_add (float_add (total_cost st) (int_times_float (count_tokens prompt) COST_PER_INPUT_TOKEN))
       (int_times_float (count_tokens (output_text (response_of env events))) COST_PER_OUTPUT_TOKEN) \<and>
   total_prompt_time (fst (process_user_input env prompt st)) =
     float_add (total_prompt_time st) (execution_time (response_of env events))"
  by (simp add: process_user_input_ok process_agent_response_counters)

lemma process_user_input_counters_match:
  "outcome env = Completion events \<Longrightarrow> counters_match st \<Longrightarrow>
   counters_match (fst (process_user_input env prompt st))"
  using roles_differ roles_differ [symmetric]
  by (simp add: counters_match_def process_user_input_counters process_user_input_messages
      transcript_tokens_append transcript_cost_append)
    (simp add: transcript_tokens_def)

lemma main_counters_match:
  assumes "\<not> call_fails r" and "case ss of None \<Rightarrow> True | Some st \<Rightarrow> counters_match st"
  shows "case fst (main r ss) of None \<Rightarrow> True | Some st \<Rightarrow> counters_match st"
proof -
  have i: "counters_match (init_state (fresh_id r) (now r) ss)"
    using assms(2) by (cases ss) (simp_all add: counters_match_init, simp add: init_state_def)
  show ?thesis
  proof (cases "reset_clicked r")
    case True
    then show ?thesis
      by (simp add: main_result counters_match_init)
  next
    case False
    show ?thesis
    proof (cases "chat_input r")
      case None
      with False i show ?thesis
        by (simp add: main_result render_chat_interface_state)
    next
      case (Some prompt)
      show ?thesis
      proof (cases "prompt = []")
        case True
        with False Some i show ?thesis
          by (simp add: main_result render_chat_interface_state)
      next
        case nonempty: False
        with False Some assms(1) obtain events where "outcome (turn r) = Completion events"
          by (cases "outcome (turn r)") (simp_all add: call_fails_def)
        then have "counters_match (fst (process_user_input (turn r) prompt
            (init_state (fresh_id r) (now r) ss)))"
          using i by (rule process_user_input_counters_match)
        with False Some nonempty show ?thesis
          by (simp add: main_result render_chat_interface_state)
      qed
    qed
  qed
qed

lemma script_runs_counters_match:
  "list_all (\<lambda>r. \<not> call_fails r) rs \<Longrightarrow>
   (case ss of None \<Rightarrow> True | Some st \<Rightarrow> counters_match st) \<Longrightarrow>
   (case script_runs rs ss of None \<Rightarrow> True | Some st \<Rightarrow> counters_match st)"
proof (induction rs arbitrary: ss)
  case Nil
  then show ?case by simp
next
  case (Cons r rs)
  from Cons.prems have "\<not> call_fails r" and rest: "list_all (\<lambda>r. \<not> call_fails r) rs"
    by simp_all
  then have "case fst (main r ss) of None \<Rightarrow> True | Some st \<Rightarrow> counters_match st"
    using Cons.prems(2) by (intro main_counters_match)
  with rest show ?case
    using Cons.IH by simp
qed

lemma script_runs_append: "script_runs (rs @ rs') ss = script_runs rs' (script_runs rs ss)"
  by (induction rs arbitrary: ss) simp_all

lemma script_runs_ends_with_reset:
  "reset_clicked r \<Longrightarrow>
   script_runs (rs @ [r]) ss = Some (init_state (reset_id r) (reset_now r) None)"
  by (simp add: script_runs_append main_result)

lemma example_run_store:
  "script_runs [example_run] None =
     Some (fst (process_user_input example_turn (lit ''hello world'') example_session))"
proof -
  have l: "lit ''hello world'' \<noteq> []"
    by (simp add: lit_def)
  show ?thesis
    by (simp add: main_result render_chat_interface_state example_run_def example_session_def l)
qed

lemma example_failed_run_store:
  "script_runs [example_failed_run] None =
     Some (fst (process_user_input example_failure (lit ''hello world'') example_session))"
proof -
  have l: "lit ''hello world'' \<noteq> []"
    by (simp add: lit_def)
  show ?thesis
    by (simp add: main_result render_chat_interface_state example_failed_run_def
        example_session_def l)
qed

lemma example_session_fields:
  "messages example_session = []"
  "total_input_tokens example_session = 0"
  "total_output_tokens example_session = 0"
  "total_cost example_session = Double 0 0"
  "total_prompt_time example_session = Double 0 0"
  by (simp_all add: example_session_def init_state_def)

lemma process_user_input_output_match:
  assumes "total_output_tokens st = transcript_tokens (lit ''assistant'') (messages st)"
  shows "total_output_tokens (fst (process_user_input env prompt st)) =
         transcript_tokens (lit ''assistant'') (messages (fst (process_user_input env prompt st)))"
proof (cases "outcome env")
  case (ClientError e)
  with assms show ?thesis
    by (simp add: process_user_input_fail)
next
  case (Completion events)
  have "transcript_tokens (lit ''assistant'') (messages (fst (process_user_input env prompt st))) =
      transcript_tokens (lit ''assistant'') (messages st) +
      count_tokens (output_text (response_of env events))"
    using roles_differ
    by (simp add: process_user_input_messages Completion transcript_tokens_append)
      (simp add: transcript_tokens_def)
  with assms show ?thesis
    by (simp add: process_user_input_counters [OF Completion])
qed

lemma main_output_match:
  assumes "case ss of None \<Rightarrow> True
           | Some st \<Rightarrow> total_output_tokens st = transcript_tokens (lit ''assistant'') (messages st)"
  shows "case fst (main r ss) of None \<Rightarrow> True
         | Some st \<Rightarrow> total_output_tokens st = transcript_tokens (lit ''assistant'') (messages st)"
proof -
  have z: "total_output_tokens (init_state uuid4 t None :: 'a session) =
      transcript_tokens (lit ''assistant'') (messages (init_state uuid4 t None :: 'a session))"
    for uuid4 t
    by (simp add: init_state_def transcript_tokens_def)
  have i: "total_output_tokens (init_state (fresh_id r) (now r) ss) =
      transcript_tokens (lit ''assistant'') (messages (init_state (fresh_id r) (now r) ss))"
  proof (cases ss)
    case None
    then show ?thesis by (simp add: z)
  next
    case (Some st)
    with assms show ?thesis by (simp add: init_state_def)
  qed
  show ?thesis
    using i z [of "reset_id r" "reset_now r"]
    by (simp add: main_result render_chat_interface_state process_user_input_output_match
        split: option.splits)
qed

lemma script_runs_output_match:
  "(case ss of None \<Rightarrow> True
    | Some st \<Rightarrow> total_output_tokens st = transcript_tokens (lit ''assistant'') (messages st)) \<Longrightarrow>
   (case script_runs rs ss of None \<Rightarrow> True
    | Some st \<Rightarrow> total_output_tokens st = transcript_tokens (lit ''assistant'') (messages st))"
proof (induction rs arbitrary: ss)
  case Nil
  then show ?case by simp
next
  case (Cons r rs)
  from Cons.prems have "case fst (main r ss) of None \<Rightarrow> True
      | Some st \<Rightarrow> total_output_tokens st = transcript_tokens (lit ''assistant'') (messages st)"
    by (rule main_output_match)
  then show ?case
    using Cons.IH by simp
qed

lemma script_runs_fresh_start:
  assumes "(before = [] \<and> ss = None) \<or> (before \<noteq> [] \<and> reset_clicked (last before))"
  shows "script_runs before ss = None \<or>
         (\<exists>uuid4 t. script_runs before ss = Some (init_state uuid4 t None))"
proof (cases "before = []")
  case True
  with assms show ?thesis by simp
next
  case False
  with assms have "reset_clicked (last before)"
    by simp
  moreover from False have "before = butlast before @ [last before]"
    by simp
  ultimately have "script_runs before ss =
      Some (init_state (reset_id (last before)) (reset_now (last before)) None)"
    using script_runs_ends_with_reset [of "last before" "butlast before" ss] by simp
  then show ?thesis
    by blast
qed

lemma example_failed_then_answered:
  "script_runs [example_failed_run, example_run] None =
     Some (fst (process_user_input example_turn (lit ''hello world'')
            (fst (process_user_input example_failure (lit ''hello world'') example_session))))"
proof -
  have l: "lit ''hello world'' \<noteq> []"
    by (simp add: lit_def)
  have i: "init_state uuid4 t (Some st) = st" for uuid4 t and st :: "unit session"
    by (simp add: init_state_def)
  show ?thesis
    by (simp add: main_result render_chat_interface_state example_run_def example_failed_run_def
        example_session_def l i)
qed

text \<open>
  Claim C2, as the program has it. After every script run of a session, the cumulative
  output-token counter equals the sum of the token counts of the assistant turns,
  whether or not agent calls have failed. When no agent call has failed since the
  session began or since the last reset, the cumulative input-token counter also equals
  the sum of the token counts of the user turns, and the cumulative cost the sum of the
  costs of all turns, added in transcript order with the program's floating-point
  addition.
\<close>

theorem counters_equal_transcript_sums:
  "(before = [] \<and> ss = None) \<or> (before \<noteq> [] \<and> reset_clicked (last before)) \<Longrightarrow>
   script_runs (before @ rs) ss = Some st \<Longrightarrow>
   total_output_tokens st = transcript_tokens (lit ''assistant'') (messages st) \<and>
   (list_all (\<lambda>r. \<not> call_fails r) rs \<longrightarrow>
      total_input_tokens st = transcript_tokens (lit ''user'') (messages st) \<and>
      total_cost st = transcript_cost (messages st))"
proof -
  assume start: "(before = [] \<and> ss = None) \<or> (before \<noteq> [] \<and> reset_clicked (last before))"
    and run: "script_runs (before @ rs) ss = Some st"
  from script_runs_fresh_start [OF start]
  have c: "case script_runs before ss of None \<Rightarrow> True | Some st \<Rightarrow> counters_match st"
    by (auto simp add: counters_match_init)
  then have o: "case script_runs before ss of None \<Rightarrow> True
      | Some st \<Rightarrow> total_output_tokens st = transcript_tokens (lit ''assistant'') (messages st)"
    by (simp add: counters_match_def split: option.splits)
  from o have "case script_runs rs (script_runs before ss) of None \<Rightarrow> True
      | Some st \<Rightarrow> total_output_tokens st = transcript_tokens (lit ''assistant'') (messages st)"
    by (rule script_runs_output_match)
  with run have out: "total_output_tokens st = transcript_tokens (lit ''assistant'') (messages st)"
    by (simp add: script_runs_append)
  have "counters_match st" if ok: "list_all (\<lambda>r. \<not> call_fails r) rs"
  proof -
    from ok c have "case script_runs rs (script_runs before ss) of None \<Rightarrow> True
        | Some st \<Rightarrow> counters_match st"
      by (rule script_runs_counters_match)
    with run show ?thesis
      by (simp add: script_runs_append)
  qed
  with out show ?thesis
    by (simp add: counters_match_def)
qed

theorem counters_equal_transcript_sums_witness:
  "map_option (\<lambda>st. (total_input_tokens st, transcript_tokens (lit ''user'') (messages st),
                     total_output_tokens st, transcript_tokens (lit ''assistant'') (messages st),
                     total_cost st = transcript_cost (messages st)))
     (script_runs [example_run] None) = Some (2, 2, 3, 3, True) \<and>
   map_option (\<lambda>st. (total_output_tokens st, transcript_tokens (lit ''assistant'') (messages st)))
     (script_runs [example_failed_run, example_run] None) = Some (3, 3)"
proof -
  have ok: "list_all (\<lambda>r. \<not> call_fails r) [example_run]"
    by (simp add: call_fails_def example_run_def example_turn_def)
  have o: "outcome example_turn = Completion example_events"
    by (simp add: example_turn_def)
  have f: "outcome example_failure = ClientError (lit ''throttled'')"
    by (simp add: example_failure_def)
  have start: "(([] :: unit run list) = [] \<and> (None :: unit session option) = None) \<or>
      (([] :: unit run list) \<noteq> [] \<and> reset_clicked (last ([] :: unit run list)))"
    by simp
  have run: "script_runs ([] @ [example_run]) None =
      Some (fst (process_user_input example_turn (lit ''hello world'') example_session))"
    by (simp only: append_Nil example_run_store)
  have run2: "script_runs ([] @ [example_failed_run, example_run]) None =
      Some (fst (process_user_input example_turn (lit ''hello world'')
            (fst (process_user_input example_failure (lit ''hello world'') example_session))))"
    by (simp only: append_Nil example_failed_then_answered)
  have n: "total_input_tokens (fst (process_user_input example_turn (lit ''hello world'') example_session)) = 2"
    "total_output_tokens (fst (process_user_input example_turn (lit ''hello world'') example_session)) = 3"
    using process_user_input_counters [OF o, of "lit ''hello world''" example_session]
    by (simp_all add: example_session_fields example_response count_tokens_examples)
  have n2: "total_output_tokens (fst (process_user_input example_turn (lit ''hello world'')
            (fst (process_user_input example_failure (lit ''hello world'') example_session)))) = 3"
    using process_user_input_counters [OF o, of "lit ''hello world''"
        "fst (process_user_input example_failure (lit ''hello world'') example_session)"]
    by (simp add: process_user_input_fail [OF f] example_session_fields example_response
        count_tokens_examples)
  from counters_equal_transcript_sums [OF start run] ok n
  have a: "map_option (\<lambda>st. (total_input_tokens st, transcript_tokens (lit ''user'') (messages st),
                     total_output_tokens st, transcript_tokens (lit ''assistant'') (messages st),
                     total_cost st = transcript_cost (messages st)))
     (script_runs [example_run] None) = Some (2, 2, 3, 3, True)"
    by (simp only: example_run_store option.simps prod.inject simp_thms)
  from counters_equal_transcript_sums [OF start run2] n2
  have b: "map_option (\<lambda>st. (total_output_tokens st, transcript_tokens (lit ''assistant'') (messages st)))
     (script_runs [example_failed_run, example_run] None) = Some (3, 3)"
    by (simp only: example_failed_then_answered option.simps prod.inject simp_thms)
  from a b show ?thesis
    by (rule conjI)
qed

text \<open>
  A new session whose first call fails: the input-token counter is 2 and the cost the
  double \<open>0.0005\<close>, while the transcript is empty, so that the sum of the user turns'
  token counts is 0 and the sum of the costs is 0.
\<close>

theorem failed_call_breaks_counter_sum:
  "map_option (\<lambda>st. (total_input_tokens st, transcript_tokens (lit ''user'') (messages st),
                     total_cost st, transcript_cost (messages st)))
     (script_runs [example_failed_run] None) = Some (2, 0, round_ratio 5 10000, Double 0 0) \<and>
   round_ratio 5 10000 \<noteq> Double 0 0"
proof -
  have f: "outcome example_failure = ClientError (lit ''throttled'')"
    by (simp add: example_failure_def)
  show ?thesis
    by (simp only: example_failed_run_store)
      (simp add: process_user_input_fail [OF f] example_session_fields count_tokens_examples
        transcript_tokens_def transcript_cost_def example_costs)
qed

section \<open>The floating-point operations\<close>

text \<open>
  The operations round to nearest: the result of each is within half a unit in the last
  place of the exact result, a tie goes to the even mantissa, and the results are in
  canonical form, in which two doubles with the same value are the same.
\<close>

lemma bit_length_pos: "0 < n \<Longrightarrow> bit_length n = Suc (bit_length (n div 2))"
  by (subst bit_length.simps) simp

lemma bit_length_nonpos: "n \<le> 0 \<Longrightarrow> bit_length n = 0"
  by (subst bit_length.simps) simp

lemma bit_length_bounds:
  "0 < n \<Longrightarrow> 2 ^ (bit_length n - 1) \<le> n \<and> n < 2 ^ bit_length n"
proof (induction n rule: bit_length.induct)
  case (1 n)
  show ?case
  proof (cases "n = 1")
    case True
    then show ?thesis
      by (simp add: bit_length_pos bit_length_nonpos)
  next
    case False
    with 1 have h: "0 < n div 2" by simp
    with 1 have ih: "2 ^ (bit_length (n div 2) - 1) \<le> n div 2 \<and> n div 2 < 2 ^ bit_length (n div 2)"
      by simp
    from h have "0 < bit_length (n div 2)"
      by (simp add: bit_length_pos)
    then have e: "2 ^ bit_length (n div 2) = 2 * (2::int) ^ (bit_length (n div 2) - 1)"
      by (cases "bit_length (n div 2)") simp_all
    from ih e have "2 ^ bit_length (n div 2) \<le> n" "n < 2 * 2 ^ bit_length (n div 2)"
      by linarith+
    with 1 show ?thesis
      by (simp add: bit_length_pos)
  qed
qed

lemma div_half_even_near:
  assumes "0 < b"
  shows "\<bar>2 * (div_half_even a b * b - a)\<bar> \<le> b"
proof -
  have a: "a = (a div b) * b + a mod b"
    by simp
  have r: "0 \<le> a mod b" "a mod b < b"
    using assms by simp_all
  define q where "q = a div b"
  define r where "r = a mod b"
  have "a = q * b + r" "0 \<le> r" "r < b"
    using a r by (simp_all add: q_def r_def)
  then show ?thesis
    unfolding div_half_even_def Let_def q_def [symmetric] r_def [symmetric]
    by (auto simp add: algebra_simps abs_if)
qed

lemma powi_cmp:
  assumes "0 < b"
  shows "(if 0 \<le> k then b * 2 ^ nat k \<le> a else b \<le> a * 2 ^ nat (- k)) \<longleftrightarrow>
         (2 powi k \<le> (of_int a / of_int b :: rat))"
proof (cases "0 \<le> k")
  case True
  have "(of_int (b * 2 ^ nat k) :: rat) \<le> of_int a \<longleftrightarrow> b * 2 ^ nat k \<le> a"
    by (rule of_int_le_iff)
  with True assms show ?thesis
    by (simp add: power_int_def pos_le_divide_eq mult.commute)
next
  case False
  have "(of_int b :: rat) \<le> of_int (a * 2 ^ nat (- k)) \<longleftrightarrow> b \<le> a * 2 ^ nat (- k)"
    by (rule of_int_le_iff)
  with False assms show ?thesis
    by (simp add: power_int_def field_simps)
qed

lemma scaled_ratio:
  assumes "0 < b"
  shows "(if 0 \<le> s then (of_int a :: rat) / of_int (b * 2 ^ nat s)
          else of_int (a * 2 ^ nat (- s)) / of_int b) = of_int a / of_int b / 2 powi s"
  using assms by (simp add: power_int_def field_simps)

lemma ratio_bounds:
  assumes "0 < a" "0 < b"
  defines "e0 \<equiv> int (bit_length a) - int (bit_length b)"
  shows "2 powi (e0 - 1) \<le> (of_int a / of_int b :: rat)" "(of_int a / of_int b :: rat) < 2 powi (e0 + 1)"
proof -
  from bit_length_bounds [OF assms(1)] have a: "(2::rat) ^ (bit_length a - 1) \<le> of_int a" "(of_int a :: rat) < 2 ^ bit_length a"
    by (metis of_int_le_iff of_int_numeral of_int_power, metis of_int_less_iff of_int_numeral of_int_power)
  from bit_length_bounds [OF assms(2)] have b: "(2::rat) ^ (bit_length b - 1) \<le> of_int b" "(of_int b :: rat) < 2 ^ bit_length b"
    by (metis of_int_le_iff of_int_numeral of_int_power, metis of_int_less_iff of_int_numeral of_int_power)
  have la: "0 < bit_length a" and lb: "0 < bit_length b"
    using assms by (simp_all add: bit_length_pos)
  have pa: "(2::rat) powi (int (bit_length a) - 1) = 2 ^ (bit_length a - 1)"
    using la by (simp add: power_int_def nat_diff_distrib')
  have pb: "(2::rat) powi (int (bit_length b) - 1) = 2 ^ (bit_length b - 1)"
    using lb by (simp add: power_int_def nat_diff_distrib')
  have qa: "(2::rat) powi int (bit_length a) = 2 ^ bit_length a"
    by simp
  have qb: "(2::rat) powi int (bit_length b) = 2 ^ bit_length b"
    by simp
  have bpos: "(0::rat) < of_int b" using assms by simp
  have "(2::rat) powi (e0 - 1) = 2 powi (int (bit_length a) - 1) / 2 powi int (bit_length b)"
    unfolding e0_def by (simp add: power_int_diff)
  also have "\<dots> \<le> of_int a / 2 powi int (bit_length b)"
    unfolding pa using a(1) by (simp add: divide_right_mono)
  also have "\<dots> \<le> of_int a / of_int b"
    unfolding qb using b(2) bpos assms(1) by (simp add: frac_le)
  finally show "2 powi (e0 - 1) \<le> (of_int a / of_int b :: rat)" .
  have "(of_int a / of_int b :: rat) < 2 powi int (bit_length a) / of_int b"
    unfolding qa using a(2) bpos by (simp add: divide_strict_right_mono)
  also have "\<dots> \<le> 2 powi int (bit_length a) / 2 powi (int (bit_length b) - 1)"
    unfolding pb qa using b(1) by (simp add: frac_le)
  also have "\<dots> = 2 powi (e0 + 1)"
    unfolding e0_def by (simp add: power_int_diff power_int_add)
  finally show "(of_int a / of_int b :: rat) < 2 powi (e0 + 1)" .
qed

lemma round_pos_sound:
  assumes "0 < a" "0 < b"
  shows "2 ^ 52 \<le> mantissa (round_pos a b) \<and> mantissa (round_pos a b) < 2 ^ 53 \<and>
         \<bar>value_of (round_pos a b) - of_int a / of_int b\<bar> \<le> 2 powi exponent (round_pos a b) / 2"
proof -
  define x :: rat where "x = of_int a / of_int b"
  define e0 where "e0 = int (bit_length a) - int (bit_length b)"
  define e where "e = (if 2 powi e0 \<le> x then e0 else e0 - 1)"
  define s where "s = e - 52"
  define num where "num = (if 0 \<le> s then a else a * 2 ^ nat (- s))"
  define den where "den = (if 0 \<le> s then b * 2 ^ nat s else b)"
  define m where "m = div_half_even num den"
  have rp: "round_pos a b = (if m = 2 ^ 53 then Double (2 ^ 52) (s + 1) else Double m s)"
    using powi_cmp [OF assms(2), of e0 a]
    unfolding round_pos_def Let_def m_def num_def den_def s_def e_def x_def e0_def
    by (simp cong: if_cong)
  have xe: "2 powi e \<le> x" "x < 2 powi (e + 1)"
    using ratio_bounds [OF assms] unfolding e_def x_def e0_def
    by (auto simp add: not_le)
  have den: "0 < den"
    using assms by (simp add: den_def)
  have y: "(of_int num :: rat) / of_int den = x / 2 powi s"
    using scaled_ratio [OF assms(2), of s a] unfolding num_def den_def x_def
    by (simp split: if_splits)
  have "2 powi e / 2 powi s \<le> x / 2 powi s" "x / 2 powi s < 2 powi (e + 1) / 2 powi s"
    using xe by (simp_all add: divide_right_mono divide_strict_right_mono)
  then have yr: "2 ^ 52 \<le> x / 2 powi s" "x / 2 powi s < 2 ^ 53"
    unfolding s_def by (simp_all add: power_int_diff [symmetric])
  have "\<bar>2 * (m * den - num)\<bar> \<le> den"
    unfolding m_def using den by (rule div_half_even_near)
  then have "\<bar>2 * (of_int m * of_int den - of_int num)\<bar> \<le> (of_int den :: rat)"
    by (metis (mono_tags, opaque_lifting) of_int_abs of_int_diff of_int_le_iff of_int_mult of_int_numeral)
  then have "\<bar>2 * (of_int m - of_int num / of_int den)\<bar> * of_int den \<le> (1 :: rat) * of_int den"
    using den by (simp add: abs_mult field_simps)
  then have "\<bar>2 * (of_int m - of_int num / of_int den)\<bar> \<le> (1 :: rat)"
    using den by (simp only: mult_le_cancel_right)
  then have "\<bar>2 :: rat\<bar> * \<bar>of_int m - of_int num / of_int den\<bar> \<le> 1"
    by (simp only: abs_mult)
  then have near: "\<bar>of_int m - x / 2 powi s\<bar> \<le> (1 / 2 :: rat)"
    unfolding y by simp
  from yr have n: "(4503599627370496 :: rat) \<le> x / 2 powi s" "x / 2 powi s < (9007199254740992 :: rat)"
    by simp_all
  from near n have "(4503599627370495 :: rat) < of_int m" "(of_int m :: rat) < 9007199254740993"
    by linarith+
  then have "4503599627370495 < m" "m < 9007199254740993"
    by simp_all
  then have mr: "2 ^ 52 \<le> m" "m \<le> 2 ^ 53"
    by simp_all
  define P :: rat where "P = 2 powi s"
  have ps: "0 < P"
    by (simp add: P_def)
  have near': "\<bar>of_int m - x / P\<bar> \<le> 1 / 2"
    using near by (simp only: P_def)
  have "of_int m * P - x = (of_int m - x / P) * P"
    using ps by (simp add: field_simps)
  then have "\<bar>of_int m * P - x\<bar> = \<bar>of_int m - x / P\<bar> * P"
    using ps by (simp only: abs_mult abs_of_pos)
  also have "\<dots> \<le> 1 / 2 * P"
    using near' ps by (intro mult_right_mono) simp_all
  finally have err: "\<bar>of_int m * 2 powi s - x\<bar> \<le> 2 powi s / 2"
    by (simp add: P_def)
  show ?thesis
  proof (cases "m = 2 ^ 53")
    case True
    have v: "value_of (round_pos a b) = of_int m * 2 powi s"
      by (simp add: rp True value_of_def power_int_add)
    have ex: "exponent (round_pos a b) = s + 1" "mantissa (round_pos a b) = 2 ^ 52"
      by (simp_all add: rp True)
    have "(2 :: rat) powi s / 2 \<le> 2 powi (s + 1) / 2"
      by (simp add: power_int_add)
    with err have "\<bar>of_int m * 2 powi s - x\<bar> \<le> 2 powi (s + 1) / 2"
      by (rule order_trans)
    then show ?thesis
      unfolding v ex x_def by simp
  next
    case False
    with mr err show ?thesis
      by (simp add: rp value_of_def x_def)
  qed
qed

lemma div_half_even_tie:
  "0 < b \<Longrightarrow> 2 * (a mod b) = b \<Longrightarrow> even (div_half_even a b)"
  by (simp add: div_half_even_def Let_def)

lemma value_of_neg: "value_of (Double (- m) e) = - value_of (Double m e)"
  by (simp add: value_of_def)

lemma round_ratio_sound:
  assumes "0 < b"
  shows "\<bar>value_of (round_ratio a b) - of_int a / of_int b\<bar> \<le> 2 powi exponent (round_ratio a b) / 2"
proof -
  consider "a = 0" | "0 < a" | "a < 0"
    by linarith
  then show ?thesis
  proof cases
    case 1
    then show ?thesis
      by (simp add: round_ratio_def value_of_def)
  next
    case 2
    with round_pos_sound [OF 2 assms] show ?thesis
      by (simp add: round_ratio_def)
  next
    case 3
    then have p: "0 < - a" by simp
    have "\<bar>value_of (round_pos (- a) b) - of_int (- a) / of_int b\<bar>
        \<le> 2 powi exponent (round_pos (- a) b) / 2"
      using round_pos_sound [OF p assms] by simp
    moreover have "value_of (round_ratio a b) = - value_of (round_pos (- a) b)"
      using 3 by (simp add: round_ratio_def Let_def value_of_def)
    moreover have "exponent (round_ratio a b) = exponent (round_pos (- a) b)"
      using 3 by (simp add: round_ratio_def Let_def)
    moreover have "\<bar>- v - of_int a / of_int b\<bar> = \<bar>v - of_int (- a) / of_int b\<bar>" for v :: rat
      by (simp add: abs_minus_commute)
    ultimately show ?thesis
      by simp
  qed
qed

lemma round_scaled_sound:
  "\<bar>value_of (round_scaled m e) - of_int m * 2 powi e\<bar> \<le> 2 powi exponent (round_scaled m e) / 2"
proof (cases "0 \<le> e")
  case True
  then have p: "(2 :: rat) powi e = 2 ^ nat e"
    by (simp add: power_int_def)
  show ?thesis
    using round_ratio_sound [of 1 "m * 2 ^ nat e"] True
    by (simp add: round_scaled_def p)
next
  case False
  then have p: "(2 :: rat) powi e = 1 / 2 ^ nat (- e)"
    by (simp add: power_int_def field_simps)
  show ?thesis
    using round_ratio_sound [of "2 ^ nat (- e)" m] False
    by (simp add: round_scaled_def p)
qed

lemma float_of_int_sound:
  "\<bar>value_of (float_of_int n) - of_int n\<bar> \<le> 2 powi exponent (float_of_int n) / 2"
  using round_ratio_sound [of 1 n] by (simp add: float_of_int_def)

lemma float_mul_sound:
  "\<bar>value_of (float_mul x y) - value_of x * value_of y\<bar> \<le> 2 powi exponent (float_mul x y) / 2"
proof -
  have "value_of x * value_of y =
      of_int (mantissa x * mantissa y) * 2 powi (exponent x + exponent y)"
    by (simp add: value_of_def power_int_add)
  with round_scaled_sound [of "mantissa x * mantissa y" "exponent x + exponent y"] show ?thesis
    by (simp add: float_mul_def)
qed

lemma value_of_aligned:
  "e \<le> exponent x \<Longrightarrow> value_of x = of_int (mantissa x * 2 ^ nat (exponent x - e)) * 2 powi e"
proof -
  assume "e \<le> exponent x"
  then have "(2 :: rat) powi exponent x = 2 ^ nat (exponent x - e) * 2 powi e"
    by (simp add: power_int_add [symmetric] flip: power_int_of_nat)
  then show ?thesis
    by (simp add: value_of_def)
qed

lemma float_add_sound:
  "\<bar>value_of (float_add x y) - (value_of x + value_of y)\<bar> \<le> 2 powi exponent (float_add x y) / 2"
proof -
  define e where "e = min (exponent x) (exponent y)"
  have "value_of x + value_of y =
      of_int (mantissa x * 2 ^ nat (exponent x - e) + mantissa y * 2 ^ nat (exponent y - e)) * 2 powi e"
    using value_of_aligned [of e x] value_of_aligned [of e y]
    by (simp add: e_def algebra_simps)
  with round_scaled_sound [of "mantissa x * 2 ^ nat (exponent x - e) + mantissa y * 2 ^ nat (exponent y - e)" e]
  show ?thesis
    by (simp add: float_add_def Let_def e_def)
qed

lemma float_sub_sound:
  "\<bar>value_of (float_sub x y) - (value_of x - value_of y)\<bar> \<le> 2 powi exponent (float_sub x y) / 2"
  using float_add_sound [of x "Double (- mantissa y) (exponent y)"]
  by (simp add: float_sub_def value_of_def)

lemma round_ratio_canonical: "0 < b \<Longrightarrow> canonical (round_ratio a b)"
proof -
  assume b: "0 < b"
  consider "a = 0" | "0 < a" | "a < 0"
    by linarith
  then show ?thesis
  proof cases
    case 1
    then show ?thesis by (simp add: round_ratio_def canonical_def)
  next
    case 2
    with round_pos_sound [OF 2 b] show ?thesis
      by (simp add: round_ratio_def canonical_def)
  next
    case 3
    then have "0 < - a" by simp
    from round_pos_sound [OF this b] 3 show ?thesis
      by (simp add: round_ratio_def canonical_def Let_def)
  qed
qed

lemma round_scaled_canonical: "canonical (round_scaled m e)"
  by (simp add: round_scaled_def round_ratio_canonical)

lemma float_results_canonical:
  "canonical (float_of_int n)" "canonical (float_mul x y)" "canonical (float_add x y)"
  "canonical (float_sub x y)" "canonical (int_times_float n x)"
  by (simp_all add: float_of_int_def float_mul_def float_add_def float_sub_def int_times_float_def
      Let_def round_scaled_canonical round_ratio_canonical)

lemma same_value_aligned:
  assumes "2 ^ 52 \<le> \<bar>m\<bar>" "\<bar>m\<bar> < 2 ^ 53" "2 ^ 52 \<le> \<bar>m'\<bar>" "\<bar>m'\<bar> < 2 ^ 53"
    and "e \<le> e'" and "(of_int m :: rat) * 2 powi e = of_int m' * 2 powi e'"
  shows "e = e' \<and> m = m'"
proof -
  define k where "k = nat (e' - e)"
  have "(2 :: rat) powi e' = 2 ^ k * 2 powi e"
    using assms(5) by (simp add: k_def power_int_add [symmetric] flip: power_int_of_nat)
  with assms(6) have "(of_int m :: rat) * 2 powi e = of_int (m' * 2 ^ k) * 2 powi e"
    by simp
  then have "(of_int m :: rat) = of_int (m' * 2 ^ k)"
    by (simp only: mult_cancel_right) simp
  then have m: "m = m' * 2 ^ k"
    by (simp only: of_int_eq_iff)
  have "k = 0"
  proof (rule ccontr)
    assume "k \<noteq> 0"
    then have "(2 :: int) \<le> 2 ^ k"
      by (cases k) simp_all
    then have "\<bar>m'\<bar> * 2 \<le> \<bar>m'\<bar> * 2 ^ k"
      by (intro mult_left_mono) simp_all
    with m assms(2, 3) show False
      by (simp add: abs_mult)
  qed
  with m assms(5) show ?thesis
    by (simp add: k_def)
qed

lemma canonical_same_value:
  assumes "canonical d" "canonical d'" "value_of d = value_of d'"
  shows "d = d'"
proof (cases "mantissa d = 0 \<or> mantissa d' = 0")
  case True
  with assms(3) have "mantissa d = 0 \<and> mantissa d' = 0"
    by (auto simp add: value_of_def)
  with assms(1, 2) show ?thesis
    by (simp add: canonical_def)
next
  case False
  with assms(1, 2) have r: "2 ^ 52 \<le> \<bar>mantissa d\<bar>" "\<bar>mantissa d\<bar> < 2 ^ 53"
    "2 ^ 52 \<le> \<bar>mantissa d'\<bar>" "\<bar>mantissa d'\<bar> < 2 ^ 53"
    by (auto simp add: canonical_def)
  have v: "(of_int (mantissa d) :: rat) * 2 powi exponent d =
      of_int (mantissa d') * 2 powi exponent d'"
    using assms(3) by (simp add: value_of_def)
  have "exponent d = exponent d' \<and> mantissa d = mantissa d'"
  proof (cases "exponent d \<le> exponent d'")
    case True
    with r v show ?thesis
      by (intro same_value_aligned)
  next
    case False
    then have "exponent d' \<le> exponent d" by simp
    with r v [symmetric] have "exponent d' = exponent d \<and> mantissa d' = mantissa d"
      by (intro same_value_aligned)
    then show ?thesis by simp
  qed
  then show ?thesis
    by (simp add: double.expand)
qed

section \<open>Token and cost estimates\<close>

text \<open>
  What \<open>str_split\<close> returns: words that are not empty and hold no whitespace, which put
  together are the text without its whitespace.
\<close>

lemma split_from_concat:
  "concat (split_from cs w) = w @ filter (\<lambda>c. \<not> isspace c) cs"
  by (induction cs arbitrary: w) auto

lemma split_from_tokens:
  "list_all (\<lambda>c. \<not> isspace c) w \<Longrightarrow>
   list_all (\<lambda>x. x \<noteq> [] \<and> list_all (\<lambda>c. \<not> isspace c) x) (split_from cs w)"
  by (induction cs arbitrary: w) simp_all

lemma str_split_tokens:
  "concat (str_split s) = filter (\<lambda>c. \<not> isspace c) s"
  "list_all (\<lambda>x. x \<noteq> [] \<and> list_all (\<lambda>c. \<not> isspace c) x) (str_split s)"
  by (simp_all add: str_split_def split_from_concat split_from_tokens)

lemma str_split_examples:
  "str_split (lit ''  hello   world '') = [lit ''hello'', lit ''world'']"
  "str_split (lit ''a\<newline>b'' @ [9, 160, 8195, 12288] @ lit ''c'') = [lit ''a'', lit ''b'', lit ''c'']"
  "str_split [] = []"
  by (simp_all add: str_split_def lit_def isspace_def)

lemma split_from_length:
  "length (split_from cs w) = word_starts (w = []) cs + (if w = [] then 0 else 1)"
  by (induction cs arbitrary: w) auto

lemma count_tokens_eq: "count_tokens text = int (whitespace_separated_tokens text)"
  by (simp add: count_tokens_def str_split_def whitespace_separated_tokens_def split_from_length)

text \<open>
  The rate as Python prints it with \<^verbatim>\<open>(0.00025).hex()\<close>, \<open>0x1.0624dd2f1a9fcp-12\<close>, and
  results of the floating-point operations that Python gives as well:
  \<^verbatim>\<open>0.1 + 0.2\<close> and \<^verbatim>\<open>3 * 0.1\<close> are \<open>0x1.3333333333334p-2\<close>, and \<^verbatim>\<open>float(2**53 + 1)\<close> is
  \<open>2**53\<close>.
\<close>

lemma rate_bits: "COST_PER_INPUT_TOKEN = Double 0x10624DD2F1A9FC (- 64)"
  by code_simp

lemma float_checks:
  "float_add (round_ratio 1 10) (round_ratio 2 10) = Double 0x13333333333334 (- 54)"
  "int_times_float 3 (round_ratio 1 10) = Double 0x13333333333334 (- 54)"
  "float_of_int 9007199254740993 = Double 0x10000000000000 1"
  "float_sub (float_of_int 1700000012) (float_of_int 1700000010) = float_of_int 2"
  by code_simp+

text \<open>
  Claim C7. The token estimate of a text is the number of its whitespace-separated
  tokens. The cost of a turn is its token count times the rate, in floating point:
  the count converted to a double and multiplied by the double \<open>0.00025\<close>, which is the
  rate of input and of output. For the utterance \<open>hello world\<close> answered by
  \<open>hi there friend\<close> on a new session, the two turns have 2 and 3 tokens and cost the
  doubles \<open>0.0005\<close> and \<open>0.00075\<close>, and the metrics afterwards are 2 input tokens,
  3 output tokens, 5 tokens in all and the cost \<open>0.00125\<close>. A decimal number here is
  the double that Python reads from it: \<open>round_ratio 5 10000\<close> is \<^verbatim>\<open>0.0005\<close>.
\<close>

theorem token_and_cost_estimate:
  "count_tokens text = int (whitespace_separated_tokens text) \<and>
   COST_PER_OUTPUT_TOKEN = COST_PER_INPUT_TOKEN \<and>
   COST_PER_INPUT_TOKEN = round_ratio 25 100000 \<and>
   (outcome env = Completion events \<longrightarrow>
      map (\<lambda>m. (tokens (metrics m), cost (metrics m)))
        (drop (length (messages st)) (messages (fst (process_user_input env prompt st)))) =
        [(count_tokens prompt, int_times_float (count_tokens prompt) COST_PER_INPUT_TOKEN),
         (count_tokens (output_text (response_of env events)),
          int_times_float (count_tokens (output_text (response_of env events))) COST_PER_OUTPUT_TOKEN)]) \<and>
   (outcome env = Completion example_events \<longrightarrow>
      map (\<lambda>m. (tokens (metrics m), cost (metrics m)))
        (messages (fst (process_user_input env (lit ''hello world'') (init_state uuid4 t None)))) =
        [(2, round_ratio 5 10000), (3, round_ratio 75 100000)] \<and>
      session_metrics (fst (process_user_input env (lit ''hello world'') (init_state uuid4 t None))) =
        (2, 3, 5, round_ratio 125 100000, float_add (Double 0 0) (float_sub (end_time env) (start_time env))))"
proof (intro conjI impI)
  show "count_tokens text = int (whitespace_separated_tokens text)"
    by (rule count_tokens_eq)
  show "COST_PER_OUTPUT_TOKEN = COST_PER_INPUT_TOKEN"
    by (simp add: COST_PER_OUTPUT_TOKEN_def COST_PER_INPUT_TOKEN_def)
  show "COST_PER_INPUT_TOKEN = round_ratio 25 100000"
    by (simp add: COST_PER_INPUT_TOKEN_def)
next
  assume "outcome env = Completion events"
  then show "map (\<lambda>m. (tokens (metrics m), cost (metrics m)))
        (drop (length (messages st)) (messages (fst (process_user_input env prompt st)))) =
        [(count_tokens prompt, int_times_float (count_tokens prompt) COST_PER_INPUT_TOKEN),
         (count_tokens (output_text (response_of env events)),
          int_times_float (count_tokens (output_text (response_of env events))) COST_PER_OUTPUT_TOKEN)]"
    by (simp add: process_user_input_messages)
next
  assume o: "outcome env = Completion example_events"
  have r: "output_text (response_of env example_events) = lit ''hi there friend''"
    "execution_time (response_of env example_events) = float_sub (end_time env) (start_time env)"
    by (simp_all add: response_of_def read_completion_def read_event_def example_events_def)
  have i: "messages (init_state uuid4 t None :: 'a session) = []"
    "total_input_tokens (init_state uuid4 t None :: 'a session) = 0"
    "total_output_tokens (init_state uuid4 t None :: 'a session) = 0"
    "total_cost (init_state uuid4 t None :: 'a session) = Double 0 0"
    "total_prompt_time (init_state uuid4 t None :: 'a session) = Double 0 0"
    by (simp_all add: init_state_def)
  show "map (\<lambda>m. (tokens (metrics m), cost (metrics m)))
        (messages (fst (process_user_input env (lit ''hello world'') (init_state uuid4 t None)))) =
        [(2, round_ratio 5 10000), (3, round_ratio 75 100000)]"
    by (simp add: process_user_input_messages o r i count_tokens_examples example_costs)
  show "session_metrics (fst (process_user_input env (lit ''hello world'') (init_state uuid4 t None))) =
        (2, 3, 5, round_ratio 125 100000, float_add (Double 0 0) (float_sub (end_time env) (start_time env)))"
    using process_user_input_counters [OF o, of "lit ''hello world''" "init_state uuid4 t None"]
    by (simp add: session_metrics_def r i count_tokens_examples example_costs)
qed

theorem token_and_cost_estimate_witness:
  "map (\<lambda>m. (tokens (metrics m), cost (metrics m)))
     (messages (fst (process_user_input example_turn (lit ''hello world'') example_session))) =
     [(2, round_ratio 5 10000), (3, round_ratio 75 100000)] \<and>
   session_metrics (fst (process_user_input example_turn (lit ''hello world'') example_session)) =
     (2, 3, 5, round_ratio 125 100000, float_of_int 2)"
proof -
  have o: "outcome example_turn = Completion example_events"
    by (simp add: example_turn_def)
  have t: "float_add (Double 0 0) (float_sub (end_time example_turn) (start_time example_turn)) =
      float_of_int 2"
    unfolding example_turn_def by code_simp
  from token_and_cost_estimate [of "[]" example_turn example_events example_session "[]"
      "lit ''session-1''" "float_of_int 1700000000"] o t
  show ?thesis
    by (simp add: example_session_def)
qed


end
